theory Spec2Isabelle
  imports Complex_Main
begin

section \<open>JavaScript values, exceptions and strings\<close>

text \<open>
  A thrown exception is a value: an error object with its \<open>name\<close>, its \<open>message\<close> and
  (for a DOMException) its legacy \<open>code\<close>. A computation that may throw returns
  \<open>js_error + 'a\<close>, with \<open>Inl\<close> for the throw. A \<open>char\<close> stands for one UTF-16 code unit
  (the model covers code units below 256), so \<open>length\<close> is the \<open>.length\<close> of the source.
\<close>

record js_error =
  err_name :: string
  err_message :: string
  err_code :: "nat option"

type_synonym 'a res = "js_error + 'a"

definition TypeError :: "string \<Rightarrow> js_error" where
  "TypeError m = \<lparr>err_name = ''TypeError'', err_message = m, err_code = None\<rparr>"

definition PlainError :: "string \<Rightarrow> js_error" where
  "PlainError m = \<lparr>err_name = ''Error'', err_message = m, err_code = None\<rparr>"

definition SecurityError :: js_error where
  "SecurityError =
     \<lparr>err_name = ''SecurityError'', err_message = ''The operation is insecure.'',
      err_code = Some 18\<rparr>"

definition QuotaExceededError :: js_error where
  "QuotaExceededError =
     \<lparr>err_name = ''QuotaExceededError'', err_message = ''The quota has been exceeded.'',
      err_code = Some 22\<rparr>"

text \<open>
  The values the storage adapter is handed and hands back: plain data, and \<open>JNative\<close> for
  a function or host object (named by the property it came from).
\<close>

datatype jsval =
    JUndefined
  | JNull
  | JBool bool
  | JNum rat
  | JStr string
  | JArr "jsval list"
  | JObj "(string \<times> jsval) list"
  | JNative string

text \<open>\<open>String.prototype.startsWith\<close> and \<open>String.prototype.includes\<close>.\<close>

definition startsWith :: "string \<Rightarrow> string \<Rightarrow> bool" where
  "startsWith s p = (take (length p) s = p)"

fun includes_str :: "string \<Rightarrow> string \<Rightarrow> bool" where
  "includes_str [] p = (p = [])"
| "includes_str (c # cs) p = (startsWith (c # cs) p \<or> includes_str cs p)"

text \<open>\<open>String(n)\<close> for a natural number, and \<open>String.prototype.padStart\<close> with one pad character.\<close>

definition digit_char :: "nat \<Rightarrow> char" where
  "digit_char d = char_of (48 + d)"

function dec :: "nat \<Rightarrow> string" where
  "dec n = (if n < 10 then [digit_char n] else dec (n div 10) @ [digit_char (n mod 10)])"
  by pat_completeness auto
termination
  by (relation "measure id") auto

declare dec.simps [simp del]

definition show_int :: "int \<Rightarrow> string" where
  "show_int i = (if i < 0 then CHR ''-'' # dec (nat (- i)) else dec (nat i))"

definition padStart :: "nat \<Rightarrow> char \<Rightarrow> string \<Rightarrow> string" where
  "padStart w c s = replicate (w - length s) c @ s"

text \<open>
  Assignment to a property of a plain object whose own properties are kept in insertion
  order: an existing key keeps its place, a new key goes last.
\<close>

fun assign :: "string \<Rightarrow> 'v \<Rightarrow> (string \<times> 'v) list \<Rightarrow> (string \<times> 'v) list" where
  "assign k v [] = [(k, v)]"
| "assign k v ((k', v') # kvs) =
     (if k = k' then (k, v) # kvs else (k', v') # assign k v kvs)"

definition delete_key :: "string \<Rightarrow> (string \<times> 'v) list \<Rightarrow> (string \<times> 'v) list" where
  "delete_key k kvs = filter (\<lambda>kv. fst kv \<noteq> k) kvs"

section \<open>local-storage.js: the storage adapter\<close>

subsection \<open>The browser's storage objects\<close>

text \<open>
  \<open>window.localStorage\<close> and \<open>window.sessionStorage\<close> belong to the browser. The model keeps
  the entries in order, an optional quota in code units (a write that would exceed it
  throws \<open>QuotaExceededError\<close> and changes nothing), and, for a store that is out of use,
  the exception its every call throws (\<open>SecurityError\<close> in a user agent with storage
  switched off).
\<close>

record native =
  items :: "(string \<times> string) list"
  quota :: "nat option"
  failing :: "js_error option"

definition usage :: "(string \<times> string) list \<Rightarrow> nat" where
  "usage kvs = sum_list (map (\<lambda>kv. length (fst kv) + length (snd kv)) kvs)"

definition native_length :: "native \<Rightarrow> nat res" where
  "native_length n = (case failing n of Some e \<Rightarrow> Inl e | None \<Rightarrow> Inr (length (items n)))"

definition native_key :: "native \<Rightarrow> nat \<Rightarrow> string option res" where
  "native_key n i =
     (case failing n of
        Some e \<Rightarrow> Inl e
      | None \<Rightarrow> Inr (if i < length (items n) then Some (fst (items n ! i)) else None))"

definition native_getItem :: "native \<Rightarrow> string \<Rightarrow> string option res" where
  "native_getItem n k = (case failing n of Some e \<Rightarrow> Inl e | None \<Rightarrow> Inr (map_of (items n) k))"

definition native_setItem :: "native \<Rightarrow> string \<Rightarrow> string \<Rightarrow> unit res \<times> native" where
  "native_setItem n k v =
     (case failing n of
        Some e \<Rightarrow> (Inl e, n)
      | None \<Rightarrow>
          if (case quota n of None \<Rightarrow> False | Some q \<Rightarrow> q < usage (assign k v (items n)))
            then (Inl QuotaExceededError, n)
          else (Inr (), n\<lparr>items := assign k v (items n)\<rparr>))"

definition native_removeItem :: "native \<Rightarrow> string \<Rightarrow> unit res \<times> native" where
  "native_removeItem n k =
     (case failing n of
        Some e \<Rightarrow> (Inl e, n)
      | None \<Rightarrow> (Inr (), n\<lparr>items := delete_key k (items n)\<rparr>))"

definition native_clear :: "native \<Rightarrow> unit res \<times> native" where
  "native_clear n =
     (case failing n of Some e \<Rightarrow> (Inl e, n) | None \<Rightarrow> (Inr (), n\<lparr>items := []\<rparr>))"

subsection \<open>The in-memory fallback objects\<close>

text \<open>
  \<open>memoryStorage.local\<close> and \<open>memoryStorage.session\<close> are object literals: besides their own
  properties they inherit the members of \<open>Object.prototype\<close>. Reading \<open>memory[key]\<close> finds an
  inherited member when there is no own property, \<open>key in memory\<close> is true for both, and an
  assignment to \<open>__proto__\<close> of a string is ignored by the inherited setter.
\<close>

type_synonym memory = "(string \<times> string) list"

definition object_prototype_keys :: "string list" where
  "object_prototype_keys =
     [''constructor'', ''__defineGetter__'', ''__defineSetter__'', ''hasOwnProperty'',
      ''__lookupGetter__'', ''__lookupSetter__'', ''isPrototypeOf'', ''propertyIsEnumerable'',
      ''toString'', ''valueOf'', ''__proto__'', ''toLocaleString'']"

datatype mem_val = MUndefined | MString string | MInherited string

definition memory_read :: "memory \<Rightarrow> string \<Rightarrow> mem_val" where
  "memory_read m key =
     (case map_of m key of
        Some v \<Rightarrow> MString v
      | None \<Rightarrow> if List.member object_prototype_keys key then MInherited key else MUndefined)"

definition memory_write :: "string \<Rightarrow> string \<Rightarrow> memory \<Rightarrow> memory" where
  "memory_write key v m = (if key = ''__proto__'' then m else assign key v m)"

definition memory_has :: "memory \<Rightarrow> string \<Rightarrow> bool" where
  "memory_has m key = (map_of m key \<noteq> None \<or> List.member object_prototype_keys key)"

subsection \<open>The platform's JSON functions\<close>

text \<open>
  \<open>JSON.parse\<close> and \<open>JSON.stringify\<close> belong to the platform and are parameters of the model:
  \<open>JSON_parse\<close> is \<open>None\<close> where the platform throws a SyntaxError; \<open>JSON_stringify\<close> returns
  \<open>None\<close> where the platform returns \<open>undefined\<close> (a function) and \<open>Inl\<close> where it throws;
  \<open>String_of\<close> is \<open>String(value)\<close>, total on the values of type \<open>jsval\<close>; \<open>JSON_error\<close> is the
  message of the SyntaxError \<open>JSON.parse\<close> throws on a text.
\<close>

record platform =
  JSON_parse :: "string \<Rightarrow> jsval option"
  JSON_stringify :: "jsval \<Rightarrow> string option res"
  String_of :: "jsval \<Rightarrow> string"
  JSON_error :: "string \<Rightarrow> string"

subsection \<open>State of the module\<close>

record storage_world =
  localStorageAvailable :: bool
  sessionStorageAvailable :: bool
  localStorage :: native
  sessionStorage :: native
  memoryLocal :: memory
  memorySession :: memory

text \<open>\<open>testStorageAvailability\<close>: a probe write and removal inside \<open>try\<close>.\<close>

definition testStorageAvailability :: "native \<Rightarrow> bool \<times> native" where
  "testStorageAvailability storage =
     (case native_setItem storage ''__storage_test__'' ''test'' of
        (Inl e, s1) \<Rightarrow> (False, s1)
      | (Inr u, s1) \<Rightarrow>
          (case native_removeItem s1 ''__storage_test__'' of
             (Inl e, s2) \<Rightarrow> (False, s2)
           | (Inr u', s2) \<Rightarrow> (True, s2)))"

definition initLocalStorage :: "storage_world \<Rightarrow> storage_world" where
  "initLocalStorage w =
     (let (la, l1) = testStorageAvailability (localStorage w);
          (sa, s1) = testStorageAvailability (sessionStorage w)
      in w\<lparr>localStorageAvailable := la, sessionStorageAvailable := sa,
            localStorage := l1, sessionStorage := s1\<rparr>)"

definition safeParse :: "platform \<Rightarrow> string option \<Rightarrow> jsval" where
  "safeParse P v =
     (case v of
        None \<Rightarrow> JNull
      | Some s \<Rightarrow> (case JSON_parse P s of Some x \<Rightarrow> x | None \<Rightarrow> JStr s))"

text \<open>\<open>safeStringify\<close>: \<open>None\<close> is the result \<open>undefined\<close>.\<close>

definition safeStringify :: "platform \<Rightarrow> jsval \<Rightarrow> string option" where
  "safeStringify P v =
     (case v of
        JUndefined \<Rightarrow> None
      | JNull \<Rightarrow> Some ''null''
      | JStr s \<Rightarrow> Some s
      | _ \<Rightarrow> (case JSON_stringify P v of Inr r \<Rightarrow> r | Inl e \<Rightarrow> Some (String_of P v)))"

definition getStorage :: "bool \<Rightarrow> storage_world \<Rightarrow> native option" where
  "getStorage isSession w =
     (if isSession then (if sessionStorageAvailable w then Some (sessionStorage w) else None)
      else (if localStorageAvailable w then Some (localStorage w) else None))"

definition getMemoryStorage :: "bool \<Rightarrow> storage_world \<Rightarrow> memory" where
  "getMemoryStorage isSession w = (if isSession then memorySession w else memoryLocal w)"

text \<open>The two stores are mutated in place; the model writes the new store back.\<close>

definition putStorage :: "bool \<Rightarrow> native \<Rightarrow> storage_world \<Rightarrow> storage_world" where
  "putStorage isSession n w = (if isSession then w\<lparr>sessionStorage := n\<rparr> else w\<lparr>localStorage := n\<rparr>)"

definition putMemoryStorage :: "bool \<Rightarrow> memory \<Rightarrow> storage_world \<Rightarrow> storage_world" where
  "putMemoryStorage isSession m w =
     (if isSession then w\<lparr>memorySession := m\<rparr> else w\<lparr>memoryLocal := m\<rparr>)"

subsection \<open>\<open>_handleQuotaExceeded\<close>\<close>

definition keysToCheck :: "string list" where
  "keysToCheck = [''rare_form_draft_'', ''rare_form_autosave_'', ''rare_temp_'', ''rare_old_'']"

text \<open>
  The first loop runs \<open>i\<close> from \<open>storage.length - 1\<close> down to \<open>0\<close>; \<open>quota_scan (Suc i)\<close> is the
  iteration at index \<open>i\<close>. The result \<open>True\<close> is the early \<open>return\<close> after a successful retry.
\<close>

fun quota_scan :: "nat \<Rightarrow> string \<Rightarrow> string \<Rightarrow> native \<Rightarrow> bool res \<times> native" where
  "quota_scan 0 newKey newValue storage = (Inr False, storage)"
| "quota_scan (Suc i) newKey newValue storage =
     (case native_key storage i of
        Inl e \<Rightarrow> (Inl e, storage)
      | Inr None \<Rightarrow> quota_scan i newKey newValue storage
      | Inr (Some key) \<Rightarrow>
          if key \<noteq> [] \<and> list_ex (\<lambda>prefix. startsWith key prefix) keysToCheck then
            (case native_removeItem storage key of
               (Inl e, s1) \<Rightarrow> (Inl e, s1)
             | (Inr u, s1) \<Rightarrow>
                 (case native_setItem s1 newKey newValue of
                    (Inr u', s2) \<Rightarrow> (Inr True, s2)
                  | (Inl e, s2) \<Rightarrow> quota_scan i newKey newValue s2))
          else quota_scan i newKey newValue storage)"

text \<open>The second loop collects the keys containing \<open>_timestamp_\<close>, in index order.\<close>

fun timestamped :: "nat \<Rightarrow> native \<Rightarrow> string list res" where
  "timestamped 0 storage = Inr []"
| "timestamped (Suc i) storage =
     (case timestamped i storage of
        Inl e \<Rightarrow> Inl e
      | Inr ks \<Rightarrow>
          (case native_key storage i of
             Inl e \<Rightarrow> Inl e
           | Inr None \<Rightarrow> Inr ks
           | Inr (Some key) \<Rightarrow>
               Inr (if key \<noteq> [] \<and> includes_str key ''_timestamp_'' then ks @ [key] else ks)))"

fun remove_all :: "string list \<Rightarrow> native \<Rightarrow> unit res \<times> native" where
  "remove_all [] storage = (Inr (), storage)"
| "remove_all (k # ks) storage =
     (case native_removeItem storage k of
        (Inl e, s1) \<Rightarrow> (Inl e, s1)
      | (Inr u, s1) \<Rightarrow> remove_all ks s1)"

definition handleQuotaExceeded :: "native \<Rightarrow> string \<Rightarrow> string \<Rightarrow> unit res \<times> native" where
  "handleQuotaExceeded storage newKey newValue =
     (case native_length storage of
        Inl e \<Rightarrow> (Inl e, storage)
      | Inr len \<Rightarrow>
          (case quota_scan len newKey newValue storage of
             (Inl e, s1) \<Rightarrow> (Inl e, s1)
           | (Inr True, s1) \<Rightarrow> (Inr (), s1)
           | (Inr False, s1) \<Rightarrow>
               (case native_length s1 of
                  Inl e \<Rightarrow> (Inl e, s1)
                | Inr len1 \<Rightarrow>
                    (case timestamped len1 s1 of
                       Inl e \<Rightarrow> (Inl e, s1)
                     | Inr timestampedKeys \<Rightarrow>
                         if 0 < length timestampedKeys then
                           (case remove_all
                                   (take ((length timestampedKeys + 1) div 2) timestampedKeys) s1 of
                              (Inl e, s2) \<Rightarrow> (Inl e, s2)
                            | (Inr u, s2) \<Rightarrow> native_setItem s2 newKey newValue)
                         else
                           (Inl (PlainError ''Unable to clear space for new storage item''), s1)))))"

subsection \<open>The public operations of \<open>Storage\<close>\<close>

text \<open>
  Every call on a native store stands in a \<open>try\<close> block of the source; the \<open>Inl\<close> branch of
  the case analysis on its result is the \<open>catch\<close> block. A key is invalid when it is the
  empty string (keys are strings in the model).
\<close>

definition Storage_set ::
  "platform \<Rightarrow> string \<Rightarrow> jsval \<Rightarrow> bool \<Rightarrow> storage_world \<Rightarrow> bool \<times> storage_world" where
  "Storage_set P key v isSession w =
     (if key = [] then (False, w)
      else
        (case safeStringify P v of
           None \<Rightarrow> (False, w)
         | Some stringValue \<Rightarrow>
             (let toMemory = (\<lambda>w'. (True, putMemoryStorage isSession
                                 (memory_write key stringValue (getMemoryStorage isSession w')) w'))
              in
                (case getStorage isSession w of
                   None \<Rightarrow> toMemory w
                 | Some storage \<Rightarrow>
                     (case native_setItem storage key stringValue of
                        (Inr u, s1) \<Rightarrow> (True, putStorage isSession s1 w)
                      | (Inl e, s1) \<Rightarrow>
                          if err_name e = ''QuotaExceededError'' \<or> err_code e = Some 22 then
                            (case handleQuotaExceeded s1 key stringValue of
                               (Inr u, s2) \<Rightarrow> (True, putStorage isSession s2 w)
                             | (Inl retryError, s2) \<Rightarrow> toMemory (putStorage isSession s2 w))
                          else toMemory (putStorage isSession s1 w))))))"

definition memory_get :: "platform \<Rightarrow> memory \<Rightarrow> string \<Rightarrow> jsval" where
  "memory_get P m key =
     (case memory_read m key of
        MUndefined \<Rightarrow> JNull
      | MString s \<Rightarrow> safeParse P (Some s)
      | MInherited k \<Rightarrow> JNative k)"

definition Storage_get :: "platform \<Rightarrow> string \<Rightarrow> bool \<Rightarrow> storage_world \<Rightarrow> jsval" where
  "Storage_get P key isSession w =
     (if key = [] then JNull
      else
        (case getStorage isSession w of
           None \<Rightarrow> memory_get P (getMemoryStorage isSession w) key
         | Some storage \<Rightarrow>
             (case native_getItem storage key of
                Inr v \<Rightarrow> safeParse P v
              | Inl e \<Rightarrow> memory_get P (getMemoryStorage isSession w) key)))"

definition Storage_remove :: "string \<Rightarrow> bool \<Rightarrow> storage_world \<Rightarrow> bool \<times> storage_world" where
  "Storage_remove key isSession w =
     (if key = [] then (False, w)
      else
        (let w1 = (case getStorage isSession w of
                     None \<Rightarrow> w
                   | Some storage \<Rightarrow> putStorage isSession (snd (native_removeItem storage key)) w)
         in (True, putMemoryStorage isSession (delete_key key (getMemoryStorage isSession w1)) w1)))"

definition Storage_clear :: "bool \<Rightarrow> storage_world \<Rightarrow> bool \<times> storage_world" where
  "Storage_clear isSession w =
     (let w1 = (case getStorage isSession w of
                  None \<Rightarrow> w
                | Some storage \<Rightarrow> putStorage isSession (snd (native_clear storage)) w)
      in (True, putMemoryStorage isSession [] w1))"

definition Storage_has :: "string \<Rightarrow> bool \<Rightarrow> storage_world \<Rightarrow> bool" where
  "Storage_has key isSession w =
     (if key = [] then False
      else
        (case getStorage isSession w of
           None \<Rightarrow> memory_has (getMemoryStorage isSession w) key
         | Some storage \<Rightarrow>
             (case native_getItem storage key of
                Inr v \<Rightarrow> v \<noteq> None
              | Inl e \<Rightarrow> memory_has (getMemoryStorage isSession w) key)))"

text \<open>The loop of \<open>keys\<close>: \<open>storage.key(i)\<close> for \<open>i < storage.length\<close>, keeping the truthy keys.\<close>

fun native_keys :: "nat \<Rightarrow> native \<Rightarrow> string list res" where
  "native_keys 0 storage = Inr []"
| "native_keys (Suc i) storage =
     (case native_keys i storage of
        Inl e \<Rightarrow> Inl e
      | Inr ks \<Rightarrow>
          (case native_key storage i of
             Inl e \<Rightarrow> Inl e
           | Inr None \<Rightarrow> Inr ks
           | Inr (Some key) \<Rightarrow> Inr (if key \<noteq> [] then ks @ [key] else ks)))"

text \<open>
  \<open>Object.keys(memory)\<close> lists the own properties (in insertion order here; the platform
  puts integer-like keys first, which no result below depends on).
\<close>

definition Storage_keys :: "bool \<Rightarrow> storage_world \<Rightarrow> string list" where
  "Storage_keys isSession w =
     (case getStorage isSession w of
        None \<Rightarrow> map fst (getMemoryStorage isSession w)
      | Some storage \<Rightarrow>
          (case native_length storage of
             Inl e \<Rightarrow> map fst (getMemoryStorage isSession w)
           | Inr len \<Rightarrow>
               (case native_keys len storage of
                  Inl e \<Rightarrow> map fst (getMemoryStorage isSession w)
                | Inr ks \<Rightarrow> ks)))"

definition Storage_size :: "platform \<Rightarrow> bool \<Rightarrow> storage_world \<Rightarrow> nat" where
  "Storage_size P isSession w =
     sum_list (map (\<lambda>key.
         (case safeStringify P (Storage_get P key isSession w) of
            None \<Rightarrow> 0
          | Some stringValue \<Rightarrow>
              if stringValue = [] then 0 else length key * 2 + length stringValue * 2))
       (Storage_keys isSession w))"

definition Storage_isAvailable :: "bool \<Rightarrow> storage_world \<Rightarrow> bool" where
  "Storage_isAvailable isSession w =
     (if isSession then sessionStorageAvailable w else localStorageAvailable w)"

subsection \<open>A fragment of the platform\<close>

text \<open>
  The platform's JSON functions on the texts and values the examples below use:
  \<open>JSON.parse\<close> reads \<open>null\<close>, \<open>true\<close>, \<open>false\<close>, \<open>123\<close>, \<open>{}\<close> and \<open>[1,2]\<close> as the values they
  denote and throws a SyntaxError on \<open>hello\<close> and on \<open>{\<close>; \<open>JSON.stringify\<close> writes the array
  of 1 and 2 as \<open>[1,2]\<close>, the empty object as \<open>{}\<close> and the number 123 as \<open>123\<close>, and
  returns \<open>undefined\<close> for a function. The fragment is asked about nothing else.
\<close>

definition json_fragment :: platform where
  "json_fragment =
     \<lparr>JSON_parse = (\<lambda>s.
          if s = ''null'' then Some JNull
          else if s = ''true'' then Some (JBool True)
          else if s = ''false'' then Some (JBool False)
          else if s = ''123'' then Some (JNum 123)
          else if s = ''{}'' then Some (JObj [])
          else if s = ''[1,2]'' then Some (JArr [JNum 1, JNum 2])
          else None),
      JSON_stringify = (\<lambda>v.
          if v = JArr [JNum 1, JNum 2] then Inr (Some ''[1,2]'')
          else if v = JObj [] then Inr (Some ''{}'')
          else if v = JNum 123 then Inr (Some ''123'')
          else Inr None),
      String_of = (\<lambda>v. ''[object Object]''),
      JSON_error = (\<lambda>s. ''Unexpected end of JSON input'')\<rparr>"

text \<open>
  An empty store in working order, one whose every call throws, and one that is full; a
  page load with both native stores in working order, one with storage switched off
  (as \<open>initLocalStorage\<close> finds it), one where the stores passed the probe of
  \<open>initLocalStorage\<close> and throw on every call since, and one whose persistent store is
  full.
\<close>

definition empty_native :: native where
  "empty_native = \<lparr>items = [], quota = None, failing = None\<rparr>"

definition disabled_native :: native where
  "disabled_native = \<lparr>items = [], quota = None, failing = Some SecurityError\<rparr>"

definition full_native :: native where
  "full_native = \<lparr>items = [], quota = Some 0, failing = None\<rparr>"

definition working_world :: storage_world where
  "working_world =
     \<lparr>localStorageAvailable = True, sessionStorageAvailable = True,
      localStorage = empty_native, sessionStorage = empty_native,
      memoryLocal = [], memorySession = []\<rparr>"

definition switched_off_world :: storage_world where
  "switched_off_world =
     initLocalStorage
       (working_world\<lparr>localStorage := disabled_native, sessionStorage := disabled_native\<rparr>)"

definition throwing_world :: storage_world where
  "throwing_world =
     working_world\<lparr>localStorage := disabled_native, sessionStorage := disabled_native\<rparr>"

definition full_world :: storage_world where
  "full_world = working_world\<lparr>localStorage := full_native\<rparr>"

subsection \<open>Where a write lands\<close>

text \<open>
  \<open>get\<close> reads the native store whenever it is in use and its \<open>getItem\<close> returns, and the
  memory object otherwise. A write of text \<open>t\<close> under \<open>key\<close> reaches the store \<open>get\<close> reads
  when the native store is in use and accepts it, or when no native store is in use (the
  memory object takes every key but \<open>__proto__\<close>). \<open>native_unusable\<close>: no native store is in
  use, or its every call throws.
\<close>

definition write_lands :: "bool \<Rightarrow> string \<Rightarrow> string \<Rightarrow> storage_world \<Rightarrow> bool" where
  "write_lands isSession key t w =
     (case getStorage isSession w of
        None \<Rightarrow> key \<noteq> ''__proto__''
      | Some storage \<Rightarrow> fst (native_setItem storage key t) = Inr ())"

definition native_unusable :: "bool \<Rightarrow> storage_world \<Rightarrow> bool" where
  "native_unusable isSession w =
     (case getStorage isSession w of None \<Rightarrow> True | Some storage \<Rightarrow> failing storage \<noteq> None)"

section \<open>accessibility.js, form validation module\<close>

subsection \<open>Strings as the validators read them\<close>

text \<open>
  White space as \<open>String.prototype.trim\<close> and the class \<open>\s\<close> of a regular expression see
  it, among the code units below 256: tab, line feed, vertical tab, form feed, carriage
  return, space and no-break space.
\<close>

definition is_ws :: "char \<Rightarrow> bool" where
  "is_ws c = List.member [9, 10, 11, 12, 13, 32, 160 :: nat] (of_char c)"

definition is_digit :: "char \<Rightarrow> bool" where
  "is_digit c = (48 \<le> (of_char c :: nat) \<and> (of_char c :: nat) \<le> 57)"

definition trim :: "string \<Rightarrow> string" where
  "trim s = rev (dropWhile is_ws (rev (dropWhile is_ws s)))"

definition toLowerCase :: "string \<Rightarrow> string" where
  "toLowerCase s =
     map (\<lambda>c. if 65 \<le> (of_char c :: nat) \<and> (of_char c :: nat) \<le> 90
               then char_of (of_char c + 32 :: nat) else c) s"

text \<open>\<open>s.split(/\s+/)\<close>: the pieces between the runs of white space.\<close>

function split_ws :: "string \<Rightarrow> string \<Rightarrow> string list" where
  "split_ws acc [] = [acc]"
| "split_ws acc (c # cs) =
     (if is_ws c then acc # split_ws [] (dropWhile is_ws cs) else split_ws (acc @ [c]) cs)"
  by pat_completeness auto
termination
  by (relation "measure (\<lambda>(acc, s). length s)")
     (auto simp: le_imp_less_Suc length_dropWhile_le)

text \<open>
  \<open>parseInt(s)\<close> with no radix: leading white space, a sign, then hexadecimal digits after
  \<open>0x\<close> or decimal digits otherwise; \<open>None\<close> is \<open>NaN\<close>.
\<close>

definition digit_of :: "nat \<Rightarrow> char \<Rightarrow> nat option" where
  "digit_of radix c =
     (let n = (of_char c :: nat);
          v = (if 48 \<le> n \<and> n \<le> 57 then Some (n - 48)
               else if 97 \<le> n \<and> n \<le> 102 then Some (n - 87)
               else if 65 \<le> n \<and> n \<le> 70 then Some (n - 55)
               else None)
      in case v of None \<Rightarrow> None | Some d \<Rightarrow> if d < radix then Some d else None)"

fun read_digits :: "nat \<Rightarrow> nat option \<Rightarrow> string \<Rightarrow> nat option" where
  "read_digits radix acc [] = acc"
| "read_digits radix acc (c # cs) =
     (case digit_of radix c of
        None \<Rightarrow> acc
      | Some d \<Rightarrow> read_digits radix (Some ((case acc of None \<Rightarrow> 0 | Some a \<Rightarrow> a) * radix + d)) cs)"

definition parseInt :: "string \<Rightarrow> int option" where
  "parseInt s =
     (let t = dropWhile is_ws s;
          negative = (case t of [] \<Rightarrow> False | c # r \<Rightarrow> c = CHR ''-'');
          u = (case t of [] \<Rightarrow> [] | c # r \<Rightarrow> if c = CHR ''-'' \<or> c = CHR ''+'' then r else t);
          hex = (startsWith u ''0x'' \<or> startsWith u ''0X'');
          magnitude = (if hex then read_digits 16 None (drop 2 u) else read_digits 10 None u)
      in case magnitude of
           None \<Rightarrow> None
         | Some m \<Rightarrow> Some (if negative then - int m else int m))"

subsection \<open>Fields, rules and the module state\<close>

text \<open>
  A form control with the attributes and classes the module looks at, and the value
  \<open>getFieldValue\<close> reads: a string, the array of checked values of a checkbox group, or the
  \<open>checked\<close> flag of a checkbox without a name.
\<close>

record vfield =
  vf_id :: string
  vf_name :: string
  vf_type :: string
  vf_value :: string
  vf_checked :: bool
  vf_attrs :: "(string \<times> string) list"
  vf_classes :: "string list"

datatype fvalue = VText string | VList "string list" | VFlag bool

datatype custom_name = StoryMinimum | CheckboxGroup | Department | Relationship

text \<open>
  A rule object \<open>{type, value}\<close> or \<open>{type: 'custom', validator, param}\<close>. The value of a
  length rule is what \<open>parseInt\<close> made of the attribute.
\<close>

datatype rule =
    Required
  | Email
  | Phone
  | MinLength "int option"
  | MaxLength "int option"
  | Pattern string
  | Custom custom_name string

record field_state =
  fs_element :: vfield
  fs_formId :: string
  fs_rules :: "rule list"
  fs_isValid :: bool
  fs_isDirty :: bool
  fs_value :: fvalue

record form_state =
  form_isValid :: bool
  form_completion :: nat

text \<open>
  The module's \<open>state\<close> with the parts of the page it writes: the error text shown at each
  field, the progress bar and completion text (when the page has them), and the
  \<open>disabled\<close> flag of the submit button of each form that has one.
\<close>

record vstate =
  v_forms :: "(string \<times> form_state) list"
  v_fields :: "(string \<times> field_state) list"
  v_errors :: "(string \<times> string list) list"
  v_touched :: "string list"
  completionPercentage :: nat
  v_shownError :: "(string \<times> string) list"
  v_progressBar :: "nat option"
  v_completionText :: "string option"
  v_submitDisabled :: "(string \<times> bool) list"

definition minStoryLength :: nat where "minStoryLength = 200"

definition message_required :: string where "message_required = ''This field is required''"
definition message_email :: string where "message_email = ''Please enter a valid email address''"
definition message_phone :: string where "message_phone = ''Please enter a valid phone number''"
definition message_pattern :: string where "message_pattern = ''Please match the required format''"

definition message_minLength :: "int option \<Rightarrow> string" where
  "message_minLength v =
     ''Must be at least '' @ (case v of None \<Rightarrow> ''NaN'' | Some n \<Rightarrow> show_int n) @ '' characters''"

definition message_maxLength :: "int option \<Rightarrow> string" where
  "message_maxLength v =
     ''Must be no more than '' @ (case v of None \<Rightarrow> ''NaN'' | Some n \<Rightarrow> show_int n)
       @ '' characters''"

definition message_custom :: "custom_name \<Rightarrow> string" where
  "message_custom c =
     (case c of
        StoryMinimum \<Rightarrow> ''Invalid value''
      | CheckboxGroup \<Rightarrow> ''Invalid value''
      | Department \<Rightarrow> ''Please select a valid department''
      | Relationship \<Rightarrow> ''Please describe your relationship to the nominee'')"

subsection \<open>The validators\<close>

text \<open>
  A value is falsy (\<open>!value\<close>) when it is the empty string or \<open>false\<close>; an array is truthy.
  A string method called on an array or on \<open>true\<close> throws a TypeError.
\<close>

definition truthy :: "fvalue \<Rightarrow> bool" where
  "truthy v = (case v of VText s \<Rightarrow> s \<noteq> [] | VList xs \<Rightarrow> True | VFlag b \<Rightarrow> b)"

definition to_text :: "fvalue \<Rightarrow> string" where
  "to_text v =
     (case v of
        VText s \<Rightarrow> s
      | VList xs \<Rightarrow> concat (case xs of [] \<Rightarrow> [] | y # ys \<Rightarrow> y # map (\<lambda>z. CHR '','' # z) ys)
      | VFlag b \<Rightarrow> if b then ''true'' else ''false'')"

definition no_method :: "string \<Rightarrow> js_error" where
  "no_method m = TypeError (''value.'' @ m @ '' is not a function'')"

definition validate_required :: "fvalue \<Rightarrow> bool" where
  "validate_required v =
     (case v of VText s \<Rightarrow> trim s \<noteq> [] | VList xs \<Rightarrow> xs \<noteq> [] | VFlag b \<Rightarrow> True)"

text \<open>The expression \<open>/^[^\s@]+@[^\s@]+\.[^\s@]+$/\<close>.\<close>

definition email_shape :: "string \<Rightarrow> bool" where
  "email_shape s =
     (let local = takeWhile (\<lambda>c. c \<noteq> CHR ''@'') s;
          rest = drop (Suc (length local)) s
      in \<not> list_ex is_ws s \<and> length (filter (\<lambda>c. c = CHR ''@'') s) = 1 \<and> local \<noteq> [] \<and>
         list_ex (\<lambda>i. rest ! i = CHR ''.'') [1..<length rest - 1])"

definition validate_email :: "fvalue \<Rightarrow> bool res" where
  "validate_email v =
     (if \<not> truthy v then Inr True
      else case v of VText s \<Rightarrow> Inr (email_shape (trim s)) | other \<Rightarrow> Inl (no_method ''trim''))"

text \<open>The expression \<open>/^\+?[\d\s\-()]+$/\<close>, and the digits \<open>replace(/\D/g, '')\<close> leaves.\<close>

definition phone_shape :: "string \<Rightarrow> bool" where
  "phone_shape s =
     (let body = (case s of [] \<Rightarrow> [] | c # r \<Rightarrow> if c = CHR ''+'' then r else s)
      in body \<noteq> [] \<and>
         list_all (\<lambda>c. is_digit c \<or> is_ws c \<or> c = CHR ''-'' \<or> c = CHR ''('' \<or> c = CHR '')'') body)"

definition validate_phone :: "fvalue \<Rightarrow> bool res" where
  "validate_phone v =
     (if \<not> truthy v then Inr True
      else case v of
             VText s \<Rightarrow>
               (let cleaned = filter is_digit s
                in Inr (phone_shape s \<and> 10 \<le> length cleaned \<and> length cleaned \<le> 15))
           | other \<Rightarrow> Inl (no_method ''replace''))"

text \<open>A comparison with \<open>NaN\<close> is false.\<close>

definition validate_minLength :: "fvalue \<Rightarrow> int option \<Rightarrow> bool res" where
  "validate_minLength v len =
     (if \<not> truthy v then Inr True
      else case v of
             VText s \<Rightarrow> Inr (case len of None \<Rightarrow> False | Some n \<Rightarrow> n \<le> int (length (trim s)))
           | other \<Rightarrow> Inl (no_method ''trim''))"

definition validate_maxLength :: "fvalue \<Rightarrow> int option \<Rightarrow> bool res" where
  "validate_maxLength v len =
     (if \<not> truthy v then Inr True
      else case v of
             VText s \<Rightarrow> Inr (case len of None \<Rightarrow> False | Some n \<Rightarrow> int (length (trim s)) \<le> n)
           | other \<Rightarrow> Inl (no_method ''trim''))"

text \<open>
  \<open>new RegExp(pattern).test(value)\<close> belongs to the platform: \<open>rx pattern text\<close> is \<open>None\<close> when
  the pattern is rejected (the \<open>catch\<close> block answers \<open>false\<close>).
\<close>

definition validate_pattern :: "(string \<Rightarrow> string \<Rightarrow> bool option) \<Rightarrow> fvalue \<Rightarrow> string \<Rightarrow> bool" where
  "validate_pattern rx v pat =
     (if \<not> truthy v then True
      else case rx pat (to_text v) of None \<Rightarrow> False | Some b \<Rightarrow> b)"

definition validDepartments :: "string list" where
  "validDepartments =
     [''engineering'', ''sales'', ''marketing'', ''hr'', ''finance'', ''operations'',
      ''customer-service'', ''product'', ''design'', ''other'']"

text \<open>The elements \<open>input[name="..."]:checked\<close> selects.\<close>

definition checked_inputs :: "vfield list \<Rightarrow> string \<Rightarrow> vfield list" where
  "checked_inputs doc name =
     filter (\<lambda>f. vf_name f = name \<and> vf_checked f \<and>
                 (vf_type f = ''checkbox'' \<or> vf_type f = ''radio'')) doc"

definition custom_validator :: "vfield list \<Rightarrow> custom_name \<Rightarrow> fvalue \<Rightarrow> bool res" where
  "custom_validator doc c v =
     (case c of
        StoryMinimum \<Rightarrow>
          (if \<not> truthy v then Inr False
           else case v of VText s \<Rightarrow> Inr (minStoryLength \<le> length (trim s))
                        | other \<Rightarrow> Inl (no_method ''trim''))
      | CheckboxGroup \<Rightarrow> Inr (0 < length (checked_inputs doc (to_text v)))
      | Department \<Rightarrow>
          (if \<not> truthy v then Inr False
           else case v of VText s \<Rightarrow> Inr (List.member validDepartments (toLowerCase s))
                        | other \<Rightarrow> Inl (no_method ''toLowerCase''))
      | Relationship \<Rightarrow>
          (if \<not> truthy v then Inr False
           else case v of
                  VText s \<Rightarrow> Inr (2 \<le> length (split_ws [] (trim s)) \<and> 10 \<le> length (trim s))
                | other \<Rightarrow> Inl (no_method ''trim'')))"

subsection \<open>Rules of a field\<close>

definition attr :: "vfield \<Rightarrow> string \<Rightarrow> string option" where
  "attr f a = map_of (vf_attrs f) a"

definition attr_or :: "vfield \<Rightarrow> string \<Rightarrow> string \<Rightarrow> string option" where
  "attr_or f a b =
     (case attr f a of
        None \<Rightarrow> attr f b
      | Some s \<Rightarrow> if s = [] then attr f b else Some s)"

definition extractValidationRules :: "vfield \<Rightarrow> rule list" where
  "extractValidationRules f =
     (if attr f ''required'' \<noteq> None \<or> attr f ''data-required'' \<noteq> None then [Required] else [])
     @ (if vf_type f = ''email'' \<or> attr f ''data-email'' \<noteq> None then [Email] else [])
     @ (if vf_type f = ''tel'' \<or> attr f ''data-phone'' \<noteq> None then [Phone] else [])
     @ (case attr_or f ''minlength'' ''data-min-length'' of
          None \<Rightarrow> [] | Some s \<Rightarrow> if s = [] then [] else [MinLength (parseInt s)])
     @ (case attr_or f ''maxlength'' ''data-max-length'' of
          None \<Rightarrow> [] | Some s \<Rightarrow> if s = [] then [] else [MaxLength (parseInt s)])
     @ (case attr_or f ''pattern'' ''data-pattern'' of
          None \<Rightarrow> [] | Some s \<Rightarrow> if s = [] then [] else [Pattern s])
     @ (if vf_name f = ''story'' \<or> List.member (vf_classes f) ''nominee-story''
          then [Custom StoryMinimum []] else [])
     @ (if vf_name f = ''qualities'' \<or> List.member (vf_classes f) ''quality-checkbox''
          then [Custom CheckboxGroup (vf_name f)] else [])
     @ (if vf_name f = ''department'' \<or> List.member (vf_classes f) ''department-select''
          then [Custom Department []] else [])
     @ (if vf_name f = ''relationship'' \<or> List.member (vf_classes f) ''relationship-field''
          then [Custom Relationship []] else [])"

definition hasRequiredRule :: "rule list \<Rightarrow> bool" where
  "hasRequiredRule rules = list_ex (\<lambda>r. r = Required) rules"

definition getFieldValue :: "vfield list \<Rightarrow> vfield \<Rightarrow> fvalue" where
  "getFieldValue doc f =
     (if vf_type f = ''checkbox'' then
        (if vf_name f \<noteq> [] then VList (map vf_value (checked_inputs doc (vf_name f)))
         else VFlag (vf_checked f))
      else if vf_type f = ''radio'' then
        (case checked_inputs doc (vf_name f) of [] \<Rightarrow> VText [] | c # cs \<Rightarrow> VText (vf_value c))
      else VText (vf_value f))"

text \<open>
  One rule: \<open>Inr None\<close> when it passes, \<open>Inr (Some message)\<close> when it fails, \<open>Inl\<close> when the
  validator throws.
\<close>

definition check_rule ::
  "(string \<Rightarrow> string \<Rightarrow> bool option) \<Rightarrow> vfield list \<Rightarrow> fvalue \<Rightarrow> rule \<Rightarrow> string option res" where
  "check_rule rx doc v r =
     (let verdict = (\<lambda>passed m. if passed then None else Some m) in
      case r of
        Required \<Rightarrow> Inr (verdict (validate_required v) message_required)
      | Email \<Rightarrow> map_sum id (\<lambda>b. verdict b message_email) (validate_email v)
      | Phone \<Rightarrow> map_sum id (\<lambda>b. verdict b message_phone) (validate_phone v)
      | MinLength len \<Rightarrow> map_sum id (\<lambda>b. verdict b (message_minLength len)) (validate_minLength v len)
      | MaxLength len \<Rightarrow> map_sum id (\<lambda>b. verdict b (message_maxLength len)) (validate_maxLength v len)
      | Pattern pat \<Rightarrow> Inr (verdict (validate_pattern rx v pat) message_pattern)
      | Custom c param \<Rightarrow>
          map_sum id (\<lambda>b. verdict b (message_custom c))
            (custom_validator doc c (if param \<noteq> [] then VText param else v)))"

text \<open>The \<open>forEach\<close> over the rules: the messages of the failing rules, in rule order.\<close>

fun check_rules ::
  "(string \<Rightarrow> string \<Rightarrow> bool option) \<Rightarrow> vfield list \<Rightarrow> fvalue \<Rightarrow> rule list \<Rightarrow> string list res" where
  "check_rules rx doc v [] = Inr []"
| "check_rules rx doc v (r # rs) =
     (case check_rule rx doc v r of
        Inl e \<Rightarrow> Inl e
      | Inr m \<Rightarrow>
          (case check_rules rx doc v rs of
             Inl e \<Rightarrow> Inl e
           | Inr ms \<Rightarrow> Inr ((case m of None \<Rightarrow> [] | Some x \<Rightarrow> [x]) @ ms)))"

subsection \<open>Validation of a field and completion of a form\<close>

text \<open>
  \<open>Math.round((valid / required) * 100)\<close>, computed in exact arithmetic (the rounding of
  the quotient to a double is not modelled): \<open>Math.round x\<close> is \<open>\<lfloor>x + 1/2\<rfloor>\<close>.
\<close>

definition percent :: "nat \<Rightarrow> nat \<Rightarrow> nat" where
  "percent valid required = nat \<lfloor>(rat_of_nat valid / rat_of_nat required) * 100 + 1 / 2\<rfloor>"

definition fields_of :: "string \<Rightarrow> vstate \<Rightarrow> field_state list" where
  "fields_of formId st = filter (\<lambda>f. fs_formId f = formId) (map snd (v_fields st))"

definition requiredFields :: "string \<Rightarrow> vstate \<Rightarrow> field_state list" where
  "requiredFields formId st = filter (\<lambda>f. hasRequiredRule (fs_rules f)) (fields_of formId st)"

definition validFields :: "string \<Rightarrow> vstate \<Rightarrow> field_state list" where
  "validFields formId st = filter fs_isValid (requiredFields formId st)"

definition completion_of :: "string \<Rightarrow> vstate \<Rightarrow> nat" where
  "completion_of formId st =
     (if 0 < length (requiredFields formId st)
        then percent (length (validFields formId st)) (length (requiredFields formId st))
      else 100)"

definition updateFormCompletion :: "string \<Rightarrow> vstate \<Rightarrow> vstate" where
  "updateFormCompletion formId st =
     (case map_of (v_forms st) formId of
        None \<Rightarrow> st
      | Some formState \<Rightarrow>
          (let completion = completion_of formId st;
               isValid = list_all fs_isValid (requiredFields formId st)
           in st\<lparr>v_forms := assign formId
                                \<lparr>form_isValid = isValid, form_completion = completion\<rparr> (v_forms st),
                   v_progressBar := map_option (\<lambda>old. completion) (v_progressBar st),
                   v_completionText :=
                     map_option (\<lambda>old. dec completion @ ''% Complete'') (v_completionText st),
                   v_submitDisabled :=
                     (case map_of (v_submitDisabled st) formId of
                        None \<Rightarrow> v_submitDisabled st
                      | Some old \<Rightarrow> assign formId (\<not> isValid) (v_submitDisabled st)),
                   completionPercentage := completion\<rparr>))"

text \<open>
  \<open>updateFieldUI\<close>: nothing is shown for a field that has not been touched; otherwise the
  first message is shown and the error map is updated.
\<close>

definition updateFieldUI :: "vfield \<Rightarrow> bool \<Rightarrow> string list \<Rightarrow> vstate \<Rightarrow> vstate" where
  "updateFieldUI f isValid errors st =
     (if \<not> List.member (v_touched st) (vf_id f) then st
      else if isValid then
        st\<lparr>v_shownError := delete_key (vf_id f) (v_shownError st),
           v_errors := delete_key (vf_id f) (v_errors st)\<rparr>
      else
        st\<lparr>v_shownError := (case errors of [] \<Rightarrow> v_shownError st
                             | e # es \<Rightarrow> assign (vf_id f) e (v_shownError st)),
           v_errors := assign (vf_id f) errors (v_errors st)\<rparr>)"

definition validateField ::
  "(string \<Rightarrow> string \<Rightarrow> bool option) \<Rightarrow> vfield list \<Rightarrow> vfield \<Rightarrow> vstate \<Rightarrow> bool res \<times> vstate" where
  "validateField rx doc f st =
     (case map_of (v_fields st) (vf_id f) of
        None \<Rightarrow> (Inr True, st)
      | Some fieldState \<Rightarrow>
          (let v = getFieldValue doc f in
           case check_rules rx doc v (fs_rules fieldState) of
             Inl e \<Rightarrow> (Inl e, st)
           | Inr errors \<Rightarrow>
               (let isValid = (errors = []);
                    st1 = st\<lparr>v_fields := assign (vf_id f)
                               (fieldState\<lparr>fs_isValid := isValid, fs_value := v\<rparr>) (v_fields st)\<rparr>;
                    st2 = updateFieldUI f isValid errors st1
                in (Inr isValid, updateFormCompletion (fs_formId fieldState) st2))))"

text \<open>
  \<open>initField\<close> for a control that has an id (a control with a name only is given a
  generated id first; one with neither is skipped).
\<close>

definition initField :: "vfield list \<Rightarrow> vfield \<Rightarrow> string \<Rightarrow> vstate \<Rightarrow> vstate" where
  "initField doc f formId st =
     (if vf_name f = [] \<and> vf_id f = [] then st
      else
        (let rules = extractValidationRules f
         in st\<lparr>v_fields := assign (vf_id f)
                  \<lparr>fs_element = f, fs_formId = formId, fs_rules = rules,
                   fs_isValid = (\<not> hasRequiredRule rules), fs_isDirty = False,
                   fs_value = getFieldValue doc f\<rparr> (v_fields st)\<rparr>))"

definition handleFieldBlur ::
  "(string \<Rightarrow> string \<Rightarrow> bool option) \<Rightarrow> vfield list \<Rightarrow> vfield \<Rightarrow> vstate \<Rightarrow> bool res \<times> vstate" where
  "handleFieldBlur rx doc f st =
     validateField rx doc f
       (st\<lparr>v_touched := (if List.member (v_touched st) (vf_id f) then v_touched st
                          else v_touched st @ [vf_id f])\<rparr>)"

subsection \<open>A concrete form\<close>



definition no_regex :: "string \<Rightarrow> string \<Rightarrow> bool option" where
  "no_regex pat s = None"

fun init_all :: "vfield list \<Rightarrow> vfield list \<Rightarrow> vstate \<Rightarrow> vstate" where
  "init_all doc [] st = st"
| "init_all doc (f # fs) st = init_all doc fs (initField doc f ''f'' st)"

fun validate_all :: "vfield list \<Rightarrow> vfield list \<Rightarrow> vstate \<Rightarrow> vstate" where
  "validate_all doc [] st = st"
| "validate_all doc (f # fs) st = validate_all doc fs (snd (validateField no_regex doc f st))"







section \<open>form-handler.js: the form/step controller\<close>

subsection \<open>Configuration\<close>

definition autoSaveKey :: string where "autoSaveKey = ''rare_form_autosave''"
definition draftsKey :: string where "draftsKey = ''rare_form_drafts''"
definition maxDrafts :: nat where "maxDrafts = 5"
definition successRedirect :: string where "successRedirect = ''success.html''"
definition config_steps :: int where "config_steps = 4"
definition submissionRefKey :: string where "submissionRefKey = ''rare_submission_ref''"

subsection \<open>Data\<close>

text \<open>
  A form control of the page, and a value of the aggregate \<open>state.formData\<close>: a string, an
  array of strings (a checkbox group), a \<open>File\<close>, or the empty object a \<open>File\<close> becomes
  in JSON text.
\<close>

datatype field_type = Checkbox | Radio | FileInput | TextInput

record dom_field =
  field_name :: string
  field_id :: string
  field_type :: field_type
  field_value :: string
  field_checked :: bool
  field_files :: "string list"

datatype form_value = FText string | FList "string list" | FFile string | FObject

type_synonym form_data = "(string \<times> form_value) list"

record draft =
  draft_id :: string
  draft_name :: string
  draft_formData :: form_data
  draft_currentStep :: int
  draft_createdAt :: string

record autosave =
  as_formData :: form_data
  as_currentStep :: int
  as_timestamp :: string
  as_draftId :: string

datatype box = Absent | Hidden | Shown string

record indicator =
  ind_active :: bool
  ind_completed :: bool

text \<open>
  The module's \<open>state\<close> object (the first six fields), the parts of the page it reads and
  writes, and its surroundings. Step numbers are JavaScript numbers, modelled as integers.
  The storage adapter is seen through the two entries the controller keeps in it, as the
  values \<open>Storage.get\<close> hands back (\<open>hasStorage\<close>: \<open>window.Storage\<close> is the adapter);
  \<open>sessionStore\<close> is \<open>window.sessionStorage\<close>, which \<open>handleSubmitSuccess\<close> calls directly.
  \<open>selectorOk\<close> tells whether the platform accepts the selector \<open>restoreFormData\<close> builds
  from a field name. Timers are recorded as pending, not run: \<open>autoSaveTimer\<close>, and
  \<open>redirect\<close> for the delayed change of \<open>window.location\<close>.
\<close>

record page =
  currentStep :: int
  totalSteps :: int
  formData :: form_data
  isSubmitting :: bool
  autoSaveTimer :: bool
  currentDraftId :: "string option"
  steps :: "dom_field list list"
  stepIndicators :: "indicator list"
  errorContainer :: box
  successContainer :: box
  stepError :: "string option"
  submitBtn :: "(string \<times> bool) option"
  announced :: "string list"
  redirect :: "string option"
  confetti :: nat
  fetchCount :: nat
  hasStorage :: bool
  autosaveEntry :: "autosave option"
  draftsEntry :: "draft list option"
  sessionStore :: native
  selectorOk :: "string \<Rightarrow> bool"

subsection \<open>Showing a step\<close>

definition announceToScreenReader :: "string \<Rightarrow> page \<Rightarrow> page" where
  "announceToScreenReader m p = p\<lparr>announced := announced p @ [m]\<rparr>"

definition announceStep :: "page \<Rightarrow> page" where
  "announceStep p =
     announceToScreenReader
       (''Step '' @ show_int (currentStep p) @ '' of '' @ show_int (totalSteps p)) p"

definition updateStepIndicators :: "page \<Rightarrow> page" where
  "updateStepIndicators p =
     p\<lparr>stepIndicators :=
         map (\<lambda>index. \<lparr>ind_active = (int index + 1 = currentStep p),
                        ind_completed = (int index + 1 < currentStep p)\<rparr>)
           [0..<length (stepIndicators p)]\<rparr>"

text \<open>
  \<open>updateNavigationButtons\<close> shows the separate submit button on the last step only; the
  previous/next buttons, the progress bar and the \<open>active\<close> class of the step elements are
  presentation and left out.
\<close>

definition showStep :: "int \<Rightarrow> page \<Rightarrow> page" where
  "showStep stepNumber p =
     (if stepNumber < 1 \<or> stepNumber > totalSteps p then p
      else announceStep (updateStepIndicators (p\<lparr>currentStep := stepNumber\<rparr>)))"

subsection \<open>Collecting the current step\<close>

definition scheduleAutoSave :: "page \<Rightarrow> page" where
  "scheduleAutoSave p = p\<lparr>autoSaveTimer := True\<rparr>"

definition currentStepElement :: "page \<Rightarrow> dom_field list option" where
  "currentStepElement p =
     (if 1 \<le> currentStep p \<and> currentStep p \<le> int (length (steps p))
      then Some (steps p ! nat (currentStep p - 1)) else None)"

definition falsy_value :: "form_value option \<Rightarrow> bool" where
  "falsy_value v = (v = None \<or> v = Some (FText []))"

text \<open>
  One iteration of the \<open>forEach\<close> of \<open>saveStepData\<close>. A checkbox whose name already holds a
  string or a file calls an array method that value does not have: a TypeError.
\<close>

definition saveField :: "dom_field \<Rightarrow> form_data \<Rightarrow> js_error option \<times> form_data" where
  "saveField f fd =
     (let name = (if field_name f \<noteq> [] then field_name f else field_id f) in
      if name = [] then (None, fd)
      else
        (case field_type f of
           Checkbox \<Rightarrow>
             (let fd1 = (if falsy_value (map_of fd name) then assign name (FList []) fd else fd) in
              case map_of fd1 name of
                Some (FList xs) \<Rightarrow>
                  if field_checked f \<and> \<not> List.member xs (field_value f)
                    then (None, assign name (FList (xs @ [field_value f])) fd1)
                  else if \<not> field_checked f
                    then (None, assign name (FList (filter (\<lambda>v. v \<noteq> field_value f) xs)) fd1)
                  else (None, fd1)
              | Some (FText s) \<Rightarrow>
                  if field_checked f then
                    (if includes_str s (field_value f) then (None, fd1)
                     else (Some (TypeError ''state.formData[name].push is not a function''), fd1))
                  else (Some (TypeError ''state.formData[name].filter is not a function''), fd1)
              | Some other \<Rightarrow>
                  if field_checked f
                    then (Some (TypeError ''state.formData[name].includes is not a function''), fd1)
                  else (Some (TypeError ''state.formData[name].filter is not a function''), fd1)
              | None \<Rightarrow> (None, fd1))
         | Radio \<Rightarrow> (None, if field_checked f then assign name (FText (field_value f)) fd else fd)
         | FileInput \<Rightarrow>
             (None, case field_files f of [] \<Rightarrow> fd | file # rest \<Rightarrow> assign name (FFile file) fd)
         | TextInput \<Rightarrow> (None, assign name (FText (field_value f)) fd)))"

fun saveFields :: "dom_field list \<Rightarrow> form_data \<Rightarrow> js_error option \<times> form_data" where
  "saveFields [] fd = (None, fd)"
| "saveFields (f # fs) fd =
     (case saveField f fd of
        (Some e, fd1) \<Rightarrow> (Some e, fd1)
      | (None, fd1) \<Rightarrow> saveFields fs fd1)"

definition saveStepData :: "page \<Rightarrow> js_error option \<times> page" where
  "saveStepData p =
     (case currentStepElement p of
        None \<Rightarrow> (None, p)
      | Some flds \<Rightarrow>
          (case saveFields flds (formData p) of
             (Some e, fd) \<Rightarrow> (Some e, p\<lparr>formData := fd\<rparr>)
           | (None, fd) \<Rightarrow> (None, scheduleAutoSave (p\<lparr>formData := fd\<rparr>))))"

subsection \<open>Navigation\<close>

definition goToStep :: "int \<Rightarrow> page \<Rightarrow> js_error option \<times> page" where
  "goToStep stepNumber p =
     (if 1 \<le> stepNumber \<and> stepNumber \<le> totalSteps p then
        (case saveStepData p of
           (Some e, p1) \<Rightarrow> (Some e, p1)
         | (None, p1) \<Rightarrow> (None, showStep stepNumber p1))
      else (None, p))"

definition handlePrev :: "page \<Rightarrow> js_error option \<times> page" where
  "handlePrev p =
     (case saveStepData p of
        (Some e, p1) \<Rightarrow> (Some e, p1)
      | (None, p1) \<Rightarrow> (None, if 1 < currentStep p1 then showStep (currentStep p1 - 1) p1 else p1))"

text \<open>
  The click handler bound to step indicator \<open>index\<close> in \<open>initMultiStepForm\<close>: it goes to step
  \<open>index + 1\<close> only when the indicator carries the class \<open>completed\<close>.
\<close>

definition indicatorClick :: "nat \<Rightarrow> page \<Rightarrow> js_error option \<times> page" where
  "indicatorClick index p =
     (if index < length (stepIndicators p) \<and> ind_completed (stepIndicators p ! index)
      then goToStep (int index + 1) p else (None, p))"

subsection \<open>Messages\<close>

definition showFormError :: "string \<Rightarrow> page \<Rightarrow> page" where
  "showFormError m p =
     announceToScreenReader m
       (if errorContainer p = Absent then p else p\<lparr>errorContainer := Shown m\<rparr>)"

definition showFormSuccess :: "string \<Rightarrow> page \<Rightarrow> page" where
  "showFormSuccess m p =
     announceToScreenReader m
       (if successContainer p = Absent then p else p\<lparr>successContainer := Shown m\<rparr>)"

definition showStepError :: "string \<Rightarrow> page \<Rightarrow> page" where
  "showStepError m p = (if currentStepElement p = None then p else p\<lparr>stepError := Some m\<rparr>)"

definition clearErrors :: "page \<Rightarrow> page" where
  "clearErrors p =
     (if errorContainer p = Absent then p else p\<lparr>errorContainer := Hidden\<rparr>)\<lparr>stepError := None\<rparr>"

definition showLoadingState :: "bool \<Rightarrow> page \<Rightarrow> page" where
  "showLoadingState b p =
     (case submitBtn p of
        None \<Rightarrow> p
      | Some btn \<Rightarrow> p\<lparr>submitBtn := Some (if b then ''Submitting...'' else ''Submit'', b)\<rparr>)"

subsection \<open>Clearing, autosave and drafts\<close>

definition clearFormData :: "page \<Rightarrow> page" where
  "clearFormData p = p\<lparr>formData := [], currentStep := 1, currentDraftId := None\<rparr>"

definition clearAutoSave :: "page \<Rightarrow> page" where
  "clearAutoSave p =
     (if \<not> hasStorage p then p else p\<lparr>autosaveEntry := None, currentDraftId := None\<rparr>)"

text \<open>What JSON text keeps of the aggregate: a \<open>File\<close> is written as \<open>{}\<close>.\<close>

definition json_copy :: "form_data \<Rightarrow> form_data" where
  "json_copy fd = map (\<lambda>(k, v). (k, case v of FFile f \<Rightarrow> FObject | other \<Rightarrow> other)) fd"

text \<open>The timer of \<open>scheduleAutoSave\<close> firing; \<open>now\<close> and \<open>newId\<close> come from the clock.\<close>

definition performAutoSave :: "string \<Rightarrow> string \<Rightarrow> page \<Rightarrow> page" where
  "performAutoSave now newId p =
     (if \<not> hasStorage p then p\<lparr>autoSaveTimer := False\<rparr>
      else p\<lparr>autoSaveTimer := False,
             autosaveEntry := Some \<lparr>as_formData = json_copy (formData p),
                                     as_currentStep = currentStep p,
                                     as_timestamp = now,
                                     as_draftId = (case currentDraftId p of
                                                     None \<Rightarrow> newId
                                                   | Some d \<Rightarrow> if d = [] then newId else d)\<rparr>\<rparr>)"

text \<open>
  \<open>restoreFormData\<close>: for every name of the aggregate, the controls with that name or id
  get the value back. \<open>querySelectorAll\<close> throws on a selector the platform rejects.
\<close>

definition value_text :: "form_value \<Rightarrow> string" where
  "value_text v =
     (case v of
        FText s \<Rightarrow> s
      | FList xs \<Rightarrow> concat (case xs of [] \<Rightarrow> [] | y # ys \<Rightarrow> y # map (\<lambda>z. CHR '','' # z) ys)
      | FFile f \<Rightarrow> ''[object File]''
      | FObject \<Rightarrow> ''[object Object]'')"

definition restoreField :: "string \<Rightarrow> form_value \<Rightarrow> dom_field \<Rightarrow> dom_field" where
  "restoreField name v f =
     (if field_name f = name \<or> field_id f = name then
        (case field_type f of
           Checkbox \<Rightarrow>
             f\<lparr>field_checked :=
                  (case v of FList xs \<Rightarrow> List.member xs (field_value f)
                           | other \<Rightarrow> other = FText (field_value f))\<rparr>
         | Radio \<Rightarrow> f\<lparr>field_checked := (v = FText (field_value f))\<rparr>
         | FileInput \<Rightarrow> f
         | TextInput \<Rightarrow> f\<lparr>field_value := value_text v\<rparr>)
      else f)"

fun restoreEntries :: "form_data \<Rightarrow> page \<Rightarrow> js_error option \<times> page" where
  "restoreEntries [] p = (None, p)"
| "restoreEntries ((name, v) # rest) p =
     (if \<not> selectorOk p name
        then (Some \<lparr>err_name = ''SyntaxError'', err_message = ''not a valid selector'',
                    err_code = Some 12\<rparr>, p)
      else restoreEntries rest (p\<lparr>steps := map (map (restoreField name v)) (steps p)\<rparr>))"

definition restoreFormData :: "page \<Rightarrow> js_error option \<times> page" where
  "restoreFormData p = restoreEntries (formData p) p"

definition loadAutoSave :: "page \<Rightarrow> page" where
  "loadAutoSave p =
     (if \<not> hasStorage p then p
      else
        (case autosaveEntry p of
           None \<Rightarrow> p
         | Some savedData \<Rightarrow>
             (let p1 = p\<lparr>formData := as_formData savedData,
                          currentDraftId := Some (as_draftId savedData)\<rparr>
              in case restoreFormData p1 of
                   (Some e, p2) \<Rightarrow> p2
                 | (None, p2) \<Rightarrow>
                     if as_currentStep savedData \<noteq> 0 then showStep (as_currentStep savedData) p2
                     else p2)))"

definition dquote :: string where
  "dquote = [CHR 0x22]"

text \<open>
  \<open>saveDraft\<close>: \<open>promptResult\<close> is what the user typed (\<open>None\<close>: cancelled), \<open>today\<close>, \<open>now\<close> and
  \<open>newId\<close> come from the clock and the random generator. The draft is written to the
  store as JSON text, so the stored record holds the JSON copy of the aggregate. The list
  under the drafts key is an array of draft records here (anything else in that entry
  makes \<open>unshift\<close> throw, which the \<open>catch\<close> block reports as a failed save).
\<close>

definition saveDraft :: "string option \<Rightarrow> string \<Rightarrow> string \<Rightarrow> string \<Rightarrow> page \<Rightarrow> page" where
  "saveDraft promptResult today now newId p =
     (if \<not> hasStorage p then p
      else
        (let draftName = (case promptResult of
                            None \<Rightarrow> ''Draft '' @ today
                          | Some s \<Rightarrow> if s = [] then ''Draft '' @ today else s);
             d = \<lparr>draft_id = newId, draft_name = draftName,
                  draft_formData = json_copy (formData p),
                  draft_currentStep = currentStep p, draft_createdAt = now\<rparr>;
             drafts = (case draftsEntry p of None \<Rightarrow> [] | Some ds \<Rightarrow> ds);
             drafts1 = d # drafts;
             drafts2 = (if maxDrafts < length drafts1 then butlast drafts1 else drafts1)
         in showFormSuccess (''Draft '' @ dquote @ draftName @ dquote @ '' saved successfully'')
              (p\<lparr>draftsEntry := Some drafts2\<rparr>)))"

definition loadDraft :: "string \<Rightarrow> page \<Rightarrow> page" where
  "loadDraft draftId p =
     (if \<not> hasStorage p then p
      else
        (case find (\<lambda>d. draft_id d = draftId)
                (case draftsEntry p of None \<Rightarrow> [] | Some ds \<Rightarrow> ds) of
           None \<Rightarrow> p
         | Some d \<Rightarrow>
             (let p1 = p\<lparr>formData := draft_formData d, currentDraftId := Some (draft_id d)\<rparr>
              in case restoreFormData p1 of
                   (Some e, p2) \<Rightarrow> showFormError ''Failed to load draft'' p2
                 | (None, p2) \<Rightarrow>
                     showFormSuccess (''Draft '' @ dquote @ draft_name d @ dquote @ '' loaded'')
                       (showStep (if draft_currentStep d \<noteq> 0 then draft_currentStep d else 1)
                          p2))))"


subsection \<open>Submission\<close>

text \<open>
  What \<open>response.json()\<close> yields, as far as the controller reads it, and how the call of
  \<open>fetch\<close> ends: rejected (a network failure is a TypeError, the timeout an AbortError),
  answered with a status that is not ok, answered with a body that is not JSON, or
  answered with a body.
\<close>

record response =
  resp_success :: bool
  resp_referenceNumber :: "string option"
  resp_message :: "string option"
  resp_error :: "string option"

datatype fetch_outcome =
    FetchRejected js_error
  | FetchStatus nat
  | FetchBodyError js_error
  | FetchBody response

text \<open>
  What one submission attempt takes from outside: the verdict of \<open>validateAllSteps\<close>, the
  end of the \<open>fetch\<close> call, two draws of \<open>Math.random()\<close> (in \<open>[0, 1)\<close>), the clock, and whether
  \<open>window.triggerConfetti\<close> is a function.
\<close>

record submit_env =
  validAll :: bool
  fetched :: fetch_outcome
  draw_success :: rat
  draw_reference :: rat
  clock_year :: nat
  clock_month :: nat
  hasConfetti :: bool

definition generateReferenceNumber :: "submit_env \<Rightarrow> string" where
  "generateReferenceNumber env =
     ''RARE-'' @ dec (clock_year env) @ padStart 2 CHR ''0'' (dec (clock_month env + 1)) @ ''-''
       @ padStart 4 CHR ''0'' (dec (nat \<lfloor>draw_reference env * 10000\<rfloor>))"

definition simulateSubmission :: "submit_env \<Rightarrow> response" where
  "simulateSubmission env =
     (if 1 / 10 < draw_success env then
        \<lparr>resp_success = True, resp_referenceNumber = Some (generateReferenceNumber env),
         resp_message = Some ''Nomination submitted successfully'', resp_error = None\<rparr>
      else
        \<lparr>resp_success = False, resp_referenceNumber = None, resp_message = None,
         resp_error = Some ''Simulated error for testing''\<rparr>)"

definition thrown_by_fetch :: "fetch_outcome \<Rightarrow> js_error option" where
  "thrown_by_fetch out =
     (case out of
        FetchRejected e \<Rightarrow> Some e
      | FetchStatus status \<Rightarrow> Some (PlainError (''HTTP error! status: '' @ dec status))
      | FetchBodyError e \<Rightarrow> Some e
      | FetchBody r \<Rightarrow> None)"

definition submitForm :: "submit_env \<Rightarrow> response res" where
  "submitForm env =
     (case thrown_by_fetch (fetched env) of
        None \<Rightarrow> (case fetched env of FetchBody r \<Rightarrow> Inr r | other \<Rightarrow> Inr (simulateSubmission env))
      | Some error \<Rightarrow>
          if err_name error = ''TypeError'' \<or> includes_str (err_message error) ''fetch''
            then Inr (simulateSubmission env)
          else Inl error)"

definition or_default :: "string option \<Rightarrow> string \<Rightarrow> string" where
  "or_default v d = (case v of None \<Rightarrow> d | Some s \<Rightarrow> if s = [] then d else s)"

definition handleSubmitSuccess :: "submit_env \<Rightarrow> response \<Rightarrow> page \<Rightarrow> js_error option \<times> page" where
  "handleSubmitSuccess env r p =
     (let p1 = showFormSuccess (or_default (resp_message r) ''Form submitted successfully'')
                 (clearFormData (clearAutoSave p));
          finish = (\<lambda>q. (None, (if hasConfetti env then q\<lparr>confetti := confetti q + 1\<rparr> else q)
                                   \<lparr>redirect := Some successRedirect\<rparr>))
      in case resp_referenceNumber r of
           None \<Rightarrow> finish p1
         | Some ref \<Rightarrow>
             if ref = [] then finish p1
             else
               (case native_setItem (sessionStore p1) submissionRefKey ref of
                  (Inl e, s1) \<Rightarrow> (Some e, p1\<lparr>sessionStore := s1\<rparr>)
                | (Inr u, s1) \<Rightarrow> finish (p1\<lparr>sessionStore := s1\<rparr>)))"

definition handleSubmitError :: "string \<Rightarrow> page \<Rightarrow> page" where
  "handleSubmitError m p =
     (let p1 = showFormError m p in
      case submitBtn p1 of
        None \<Rightarrow> p1
      | Some (t, d) \<Rightarrow> p1\<lparr>submitBtn := Some (''Retry Submission'', d)\<rparr>)"

definition handleSubmit :: "submit_env \<Rightarrow> page \<Rightarrow> page" where
  "handleSubmit env p =
     (if isSubmitting p then p
      else if \<not> validAll env then showFormError ''Please complete all required fields'' p
      else
        (let p1 = clearErrors (showLoadingState True (p\<lparr>isSubmitting := True\<rparr>));
             p2 = p1\<lparr>fetchCount := fetchCount p1 + 1\<rparr>;
             p3 = (case submitForm env of
                     Inr r \<Rightarrow>
                       if resp_success r then
                         (case handleSubmitSuccess env r p2 of
                            (None, q) \<Rightarrow> q
                          | (Some error, q) \<Rightarrow>
                              handleSubmitError
                                (or_default (Some (err_message error)) ''Network error occurred'') q)
                       else handleSubmitError (or_default (resp_error r) ''Submission failed'') p2
                   | Inl error \<Rightarrow>
                       handleSubmitError
                         (or_default (Some (err_message error)) ''Network error occurred'') p2)
         in showLoadingState False (p3\<lparr>isSubmitting := False\<rparr>)))"

text \<open>
  \<open>handleNext\<close>: \<open>stepValid\<close> is the verdict of \<open>validateCurrentStep\<close>. On the last step it
  submits instead of advancing.
\<close>

definition handleNext :: "bool \<Rightarrow> submit_env \<Rightarrow> page \<Rightarrow> js_error option \<times> page" where
  "handleNext stepValid env p =
     (if \<not> stepValid then (None, showStepError ''Please correct the errors before proceeding'' p)
      else
        (case saveStepData p of
           (Some e, p1) \<Rightarrow> (Some e, p1)
         | (None, p1) \<Rightarrow>
             if currentStep p1 < totalSteps p1 then (None, showStep (currentStep p1 + 1) p1)
             else (None, handleSubmit env p1)))"

text \<open>\<open>initMultiStepForm\<close>, on a page that has the form.\<close>

definition initMultiStepForm :: "page \<Rightarrow> page" where
  "initMultiStepForm p =
     (if steps p = [] then p
      else showStep 1 (p\<lparr>totalSteps := int (length (steps p))\<rparr>))"

text \<open>The module's state as the script creates it, on a given page.\<close>

definition initial_state :: "page \<Rightarrow> page" where
  "initial_state p =
     p\<lparr>currentStep := 1, totalSteps := config_steps, formData := [], isSubmitting := False,
       autoSaveTimer := False, currentDraftId := None\<rparr>"

subsection \<open>The controller as a transition system\<close>




text \<open>
  \<open>initFormHandler\<close>: the state as created, the multi-step form, then the autosave
  snapshot (\<open>initAutoSave\<close> calls \<open>loadAutoSave\<close>).
\<close>

definition initFormHandler :: "page \<Rightarrow> page" where
  "initFormHandler p = loadAutoSave (initMultiStepForm (initial_state p))"

definition step_in_range :: "page \<Rightarrow> bool" where
  "step_in_range p = (1 \<le> currentStep p \<and> currentStep p \<le> totalSteps p)"

definition stored_drafts :: "page \<Rightarrow> draft list" where
  "stored_drafts p = (case draftsEntry p of None \<Rightarrow> [] | Some ds \<Rightarrow> ds)"

text \<open>A page whose step indicators are as \<open>updateStepIndicators\<close> last left them.\<close>

definition rendered :: "page \<Rightarrow> bool" where
  "rendered p = (updateStepIndicators p = p)"

text \<open>
  A submission attempt fails when \<open>submitForm\<close> throws or resolves with a response that has
  no success indication; \<open>failure_message\<close> is the message \<open>handleSubmit\<close> then passes to
  \<open>handleSubmitError\<close>.
\<close>

definition submission_fails :: "submit_env \<Rightarrow> bool" where
  "submission_fails env = (case submitForm env of Inl error \<Rightarrow> True | Inr r \<Rightarrow> \<not> resp_success r)"

definition failure_message :: "submit_env \<Rightarrow> string" where
  "failure_message env =
     (case submitForm env of
        Inl error \<Rightarrow> or_default (Some (err_message error)) ''Network error occurred''
      | Inr r \<Rightarrow> or_default (resp_error r) ''Submission failed'')"

subsection \<open>A concrete page\<close>

text \<open>
  A nomination page of four steps with one text control each, a working session store and
  the storage adapter loaded; \<open>stale_page\<close> is the same page with a stored draft and an
  autosave snapshot whose step numbers lie outside the form.
\<close>

definition text_field :: "string \<Rightarrow> string \<Rightarrow> dom_field" where
  "text_field n v =
     \<lparr>field_name = n, field_id = n, field_type = TextInput, field_value = v,
      field_checked = False, field_files = []\<rparr>"

definition example_page :: page where
  "example_page =
     \<lparr>currentStep = 1, totalSteps = 4, formData = [], isSubmitting = False,
      autoSaveTimer = False, currentDraftId = None,
      steps = [[text_field ''nominee'' ''Ada''], [text_field ''department'' ''design''],
               [text_field ''relationship'' ''my direct manager''],
               [text_field ''email'' ''ada@example.org'']],
      stepIndicators = replicate 4 \<lparr>ind_active = False, ind_completed = False\<rparr>,
      errorContainer = Hidden, successContainer = Hidden, stepError = None,
      submitBtn = Some (''Submit'', False), announced = [], redirect = None, confetti = 0,
      fetchCount = 0, hasStorage = True, autosaveEntry = None, draftsEntry = None,
      sessionStore = empty_native, selectorOk = (\<lambda>name. True)\<rparr>"

definition stale_page :: page where
  "stale_page =
     example_page
       \<lparr>autosaveEntry := Some \<lparr>as_formData = [(''nominee'', FText ''Ada'')], as_currentStep = 12,
                                as_timestamp = ''2025-01-07T10:00:00.000Z'', as_draftId = ''d0''\<rparr>,
        draftsEntry := Some [\<lparr>draft_id = ''d1'', draft_name = ''first'',
                               draft_formData = [(''nominee'', FText ''Grace'')],
                               draft_currentStep = 9,
                               draft_createdAt = ''2025-01-06T09:00:00.000Z''\<rparr>]\<rparr>"

text \<open>
  The page on its last step with a collected aggregate; a submission whose \<open>fetch\<close> is
  rejected with the TypeError of a network failure; one that times out; and one answered
  with the success response of the specification's scenario.
\<close>

definition filled_page :: page where
  "filled_page =
     example_page\<lparr>currentStep := 4,
                   formData := [(''nominee'', FText ''Ada''), (''department'', FText ''design'')],
                   autosaveEntry := Some \<lparr>as_formData = [(''nominee'', FText ''Ada'')],
                                           as_currentStep = 4,
                                           as_timestamp = ''2025-01-07T10:00:00.000Z'',
                                           as_draftId = ''d0''\<rparr>\<rparr>"

definition network_failure :: submit_env where
  "network_failure =
     \<lparr>validAll = True, fetched = FetchRejected (TypeError ''Failed to fetch''),
      draw_success = 1 / 2, draw_reference = 42 / 10000, clock_year = 2025, clock_month = 0,
      hasConfetti = False\<rparr>"

definition timed_out :: submit_env where
  "timed_out =
     network_failure
       \<lparr>fetched := FetchRejected \<lparr>err_name = ''AbortError'',
                                    err_message = ''The operation was aborted.'',
                                    err_code = Some 20\<rparr>\<rparr>"

definition answered :: submit_env where
  "answered =
     network_failure
       \<lparr>fetched := FetchBody \<lparr>resp_success = True,
                                resp_referenceNumber = Some ''RARE-202501-0042'',
                                resp_message = None, resp_error = None\<rparr>\<rparr>"

section \<open>functions/submit-nomination.js: the submission endpoint\<close>

text \<open>
  The event the platform hands to the handler (\<open>ev_headers\<close> is \<open>None\<close> when the event has
  no \<open>headers\<close> object), what the handler needs from outside (the clock and one draw of
  \<open>Math.random()\<close>), and its answer. The body of the answer is the object handed to
  \<open>JSON.stringify\<close>.
\<close>

record http_event =
  ev_httpMethod :: string
  ev_headers :: "(string \<times> string) list option"
  ev_body :: "string option"

record endpoint_env =
  ep_year :: nat
  ep_month :: nat
  ep_random :: rat

record http_answer =
  statusCode :: nat
  answer :: jsval

definition reference_code :: "endpoint_env \<Rightarrow> string" where
  "reference_code env =
     ''RARE-'' @ dec (ep_year env) @ padStart 2 CHR ''0'' (dec (ep_month env + 1)) @ ''-''
       @ padStart 4 CHR ''0'' (dec (nat \<lfloor>ep_random env * 10000\<rfloor>))"

text \<open>\<open>event.body || '{}'\<close>, the text handed to \<open>JSON.parse\<close>.\<close>

definition body_text :: "http_event \<Rightarrow> string" where
  "body_text e = (case ev_body e of None \<Rightarrow> ''{}'' | Some b \<Rightarrow> if b = [] then ''{}'' else b)"

definition bad_request :: "string \<Rightarrow> http_answer" where
  "bad_request m =
     \<lparr>statusCode = 400, answer = JObj [(''success'', JBool False), (''error'', JStr m)]\<rparr>"

definition handler :: "platform \<Rightarrow> endpoint_env \<Rightarrow> http_event \<Rightarrow> http_answer" where
  "handler P env e =
     (if ev_httpMethod e \<noteq> ''POST'' then
        \<lparr>statusCode = 405, answer = JObj [(''error'', JStr ''Method Not Allowed'')]\<rparr>
      else
        (case ev_headers e of
           None \<Rightarrow>
             bad_request ''Cannot read properties of undefined (reading 'content-type')''
         | Some hs \<Rightarrow>
             (let contentType = (case map_of hs ''content-type'' of
                                   None \<Rightarrow> [] | Some c \<Rightarrow> c);
                  payload = (if includes_str contentType ''application/json''
                             then JSON_parse P (body_text e)
                             else Some (JObj [(''raw'', JStr (case ev_body e of
                                                                 None \<Rightarrow> [] | Some b \<Rightarrow> b))]))
              in case payload of
                   None \<Rightarrow> bad_request (JSON_error P (body_text e))
                 | Some parsed \<Rightarrow>
                     \<lparr>statusCode = 200,
                      answer = JObj [(''success'', JBool True),
                                     (''referenceNumber'', JStr (reference_code env))]\<rparr>)))"

text \<open>A request of the nomination form, and one whose JSON body is cut short.\<close>

definition january :: endpoint_env where
  "january = \<lparr>ep_year = 2025, ep_month = 0, ep_random = 42 / 10000\<rparr>"

definition form_post :: http_event where
  "form_post =
     \<lparr>ev_httpMethod = ''POST'',
      ev_headers = Some [(''content-type'', ''multipart/form-data; boundary=x'')],
      ev_body = Some ''nominee=Ada''\<rparr>"

definition broken_json_post :: http_event where
  "broken_json_post =
     \<lparr>ev_httpMethod = ''POST'', ev_headers = Some [(''content-type'', ''application/json'')],
      ev_body = Some ''{''\<rparr>"

section \<open>Properties of the storage adapter\<close>

lemma map_of_assign [simp]: "map_of (assign k v kvs) k' = (if k' = k then Some v else map_of kvs k')"
  by (induction kvs) auto

lemma assign_idem [simp]: "assign k v (assign k v kvs) = assign k v kvs"
  by (induction kvs) auto

lemma putStorage_get [simp]:
  "getStorage s (putStorage s n w) = (case getStorage s w of None \<Rightarrow> None | Some old \<Rightarrow> Some n)"
  "getMemoryStorage s (putStorage s n w) = getMemoryStorage s w"
  "getStorage s (putMemoryStorage s m w) = getStorage s w"
  "getMemoryStorage s (putMemoryStorage s m w) = m"
  by (auto simp: getStorage_def putStorage_def getMemoryStorage_def putMemoryStorage_def)

lemma put_same [simp]:
  "getStorage s w = Some n \<Longrightarrow> putStorage s n w = w"
  "putMemoryStorage s (getMemoryStorage s w) w = w"
  by (auto simp: getStorage_def putStorage_def getMemoryStorage_def putMemoryStorage_def
      split: if_splits)

lemma put_put [simp]:
  "putStorage s n (putStorage s n' w) = putStorage s n w"
  "putMemoryStorage s m (putMemoryStorage s m' w) = putMemoryStorage s m w"
  by (auto simp: putStorage_def putMemoryStorage_def)

lemma native_setItem_ok:
  "fst (native_setItem n k t) = Inr () \<Longrightarrow>
     native_setItem n k t = (Inr (), n\<lparr>items := assign k t (items n)\<rparr>) \<and> failing n = None"
  by (auto simp: native_setItem_def split: option.splits if_splits)

lemma native_setItem_again:
  "fst (native_setItem n k t) = Inr () \<Longrightarrow>
     native_setItem (n\<lparr>items := assign k t (items n)\<rparr>) k t =
       (Inr (), n\<lparr>items := assign k t (items n)\<rparr>)"
  by (auto simp: native_setItem_def split: option.splits if_splits)

lemma memory_get_written:
  "key \<noteq> ''__proto__'' \<Longrightarrow> memory_get P (memory_write key t m) key = safeParse P (Some t)"
  by (simp add: memory_get_def memory_write_def memory_read_def)

lemma memory_write_idem [simp]: "memory_write key t (memory_write key t m) = memory_write key t m"
  by (simp add: memory_write_def)

lemma set_lands:
  assumes "key \<noteq> []" "safeStringify P v = Some t" "write_lands s key t w"
  shows "Storage_set P key v s w =
           (True, case getStorage s w of
                    None \<Rightarrow> putMemoryStorage s (memory_write key t (getMemoryStorage s w)) w
                  | Some n \<Rightarrow> putStorage s (n\<lparr>items := assign key t (items n)\<rparr>) w)"
  using assms
  by (auto simp: Storage_set_def write_lands_def Let_def split: option.splits
      dest!: native_setItem_ok)

lemma get_after_set:
  assumes "key \<noteq> []" "safeStringify P v = Some t" "write_lands s key t w"
  shows "Storage_get P key s (snd (Storage_set P key v s w)) = safeParse P (Some t)"
proof (cases "getStorage s w")
  case None
  then show ?thesis
    using assms by (simp add: set_lands Storage_get_def write_lands_def memory_get_written)
next
  case (Some n)
  then have "failing n = None"
    using assms(3) by (auto simp: write_lands_def dest: native_setItem_ok)
  then show ?thesis
    using assms Some by (simp add: set_lands Storage_get_def native_getItem_def)
qed

lemma set_twice:
  assumes "key \<noteq> []" "safeStringify P v = Some t" "write_lands s key t w"
  shows "Storage_set P key v s (snd (Storage_set P key v s w)) = Storage_set P key v s w"
proof (cases "getStorage s w")
  case None
  then have "write_lands s key t (snd (Storage_set P key v s w))"
    using assms by (simp add: set_lands write_lands_def)
  then show ?thesis
    using assms None by (simp add: set_lands)
next
  case (Some n)
  then have ok: "fst (native_setItem n key t) = Inr ()"
    using assms(3) by (simp add: write_lands_def)
  have "write_lands s key t (snd (Storage_set P key v s w))"
    using assms Some native_setItem_again [OF ok] by (simp add: set_lands write_lands_def)
  then show ?thesis
    using assms Some by (simp add: set_lands)
qed

lemma unusable_get: "native_unusable s w \<Longrightarrow> key \<noteq> [] \<Longrightarrow>
   Storage_get P key s w = memory_get P (getMemoryStorage s w) key"
  by (auto simp: native_unusable_def Storage_get_def native_getItem_def split: option.splits)

lemma handleQuotaExceeded_failing:
  "failing n = Some e \<Longrightarrow> handleQuotaExceeded n k t = (Inl e, n)"
  by (simp add: handleQuotaExceeded_def native_length_def)

lemma unusable_set:
  assumes "native_unusable s w" "key \<noteq> []"
  shows "Storage_set P key v s w =
           (case safeStringify P v of
              None \<Rightarrow> (False, w)
            | Some t \<Rightarrow> (True, putMemoryStorage s (memory_write key t (getMemoryStorage s w)) w))"
  using assms
  by (auto simp: native_unusable_def Storage_set_def Let_def native_setItem_def
      handleQuotaExceeded_failing split: option.splits)

lemma unusable_remove:
  "native_unusable s w \<Longrightarrow> key \<noteq> [] \<Longrightarrow>
     Storage_remove key s w = (True, putMemoryStorage s (delete_key key (getMemoryStorage s w)) w)"
  by (auto simp: native_unusable_def Storage_remove_def Let_def native_removeItem_def
      split: option.splits)

lemma unusable_clear:
  "native_unusable s w \<Longrightarrow> Storage_clear s w = (True, putMemoryStorage s [] w)"
  by (auto simp: native_unusable_def Storage_clear_def Let_def native_clear_def
      split: option.splits)

lemma unusable_has:
  "native_unusable s w \<Longrightarrow>
     Storage_has key s w = (key \<noteq> [] \<and> memory_has (getMemoryStorage s w) key)"
  by (auto simp: native_unusable_def Storage_has_def native_getItem_def split: option.splits)

lemma unusable_keys:
  "native_unusable s w \<Longrightarrow> Storage_keys s w = map fst (getMemoryStorage s w)"
  by (auto simp: native_unusable_def Storage_keys_def native_length_def split: option.splits)

lemma unusable_size:
  assumes "native_unusable s w"
  shows "Storage_size P s w =
     sum_list (map (\<lambda>key.
         (case safeStringify P (if key = [] then JNull
                                else memory_get P (getMemoryStorage s w) key) of
            None \<Rightarrow> 0
          | Some stringValue \<Rightarrow>
              if stringValue = [] then 0 else length key * 2 + length stringValue * 2))
       (map fst (getMemoryStorage s w)))"
proof -
  have "Storage_get P key s w = (if key = [] then JNull else memory_get P (getMemoryStorage s w) key)"
    for key
    using assms by (simp add: unusable_get) (simp add: Storage_get_def)
  then show ?thesis
    by (simp add: Storage_size_def unusable_keys [OF assms])
qed

lemma unusable_preserved:
  assumes "native_unusable s w"
  shows "native_unusable s (snd (Storage_set P key v s w))"
    "native_unusable s (snd (Storage_remove key s w))"
    "native_unusable s (snd (Storage_clear s w))"
proof -
  have m: "native_unusable s (putMemoryStorage s m w)" for m
    using assms by (simp add: native_unusable_def)
  show "native_unusable s (snd (Storage_set P key v s w))"
  proof (cases "key = []")
    case True
    then show ?thesis using assms by (simp add: Storage_set_def)
  next
    case False
    then show ?thesis using assms m by (simp add: unusable_set split: option.splits)
  qed
  show "native_unusable s (snd (Storage_remove key s w))"
  proof (cases "key = []")
    case True
    then show ?thesis using assms by (simp add: Storage_remove_def)
  next
    case False
    then show ?thesis using assms m by (simp add: unusable_remove)
  qed
  show "native_unusable s (snd (Storage_clear s w))"
    using assms m by (simp add: unusable_clear)
qed

lemma get_defined:
  assumes "\<forall>t. JSON_parse P t \<noteq> Some JUndefined"
  shows "Storage_get P key s w \<noteq> JUndefined"
proof -
  have sp: "safeParse P x \<noteq> JUndefined" for x
    using assms by (auto simp: safeParse_def split: option.splits)
  have "memory_get P m key \<noteq> JUndefined" for m
    by (simp add: memory_get_def sp split: mem_val.splits)
  then show ?thesis
    by (simp add: Storage_get_def sp split: option.splits sum.splits)
qed

section \<open>Properties of the validation module\<close>

subsection \<open>The completion percentage\<close>






subsection \<open>Validation of a text field\<close>











subsection \<open>A large form\<close>








section \<open>Properties of the submission endpoint\<close>

lemma digit_char_is_digit: "d < 10 \<Longrightarrow> is_digit (digit_char d)"
  by (simp add: is_digit_def digit_char_def)

lemma dec_digits: "list_all is_digit (dec n)"
proof (induction n rule: dec.induct)
  case (1 n)
  show ?case
  proof (cases "n < 10")
    case True
    then show ?thesis by (simp add: dec.simps [of n] digit_char_is_digit)
  next
    case False
    then show ?thesis
      using 1 by (simp add: dec.simps [of n] digit_char_is_digit)
  qed
qed

lemma dec_length_1: "n < 10 \<Longrightarrow> length (dec n) = 1"
  by (simp add: dec.simps [of n])

lemma dec_length_2: "10 \<le> n \<Longrightarrow> n < 100 \<Longrightarrow> length (dec n) = 2"
  by (simp add: dec.simps [of n] dec_length_1)

lemma dec_length_3: "100 \<le> n \<Longrightarrow> n < 1000 \<Longrightarrow> length (dec n) = 3"
  by (simp add: dec.simps [of n] dec_length_2)

lemma dec_length_4: "1000 \<le> n \<Longrightarrow> n < 10000 \<Longrightarrow> length (dec n) = 4"
  by (simp add: dec.simps [of n] dec_length_3)

lemma dec_length_le_4: "n < 10000 \<Longrightarrow> length (dec n) \<le> 4"
  using dec_length_1 [of n] dec_length_2 [of n] dec_length_3 [of n] dec_length_4 [of n]
  by (cases "n < 10"; cases "n < 100"; cases "n < 1000") simp_all

lemma dec_length_le_2: "n < 100 \<Longrightarrow> length (dec n) \<le> 2"
  using dec_length_1 [of n] dec_length_2 [of n]
  by (cases "n < 10") simp_all

lemma padStart_length: "length s \<le> w \<Longrightarrow> length (padStart w c s) = w"
  by (simp add: padStart_def)

lemma padStart_digits: "list_all is_digit s \<Longrightarrow> list_all is_digit (padStart w CHR ''0'' s)"
  by (auto simp: padStart_def is_digit_def list_all_iff)

lemma draw_below: "0 \<le> r \<Longrightarrow> r < 1 \<Longrightarrow> nat \<lfloor>r * 10000\<rfloor> < 10000" for r :: rat
proof -
  assume "0 \<le> r" "r < 1"
  then have "r * 10000 < 10000" by simp
  then have "\<lfloor>r * 10000\<rfloor> < 10000" by (simp add: floor_less_iff)
  moreover have "0 \<le> \<lfloor>r * 10000\<rfloor>" using \<open>0 \<le> r\<close> by simp
  ultimately show ?thesis by (simp add: nat_less_iff)
qed


lemma reference_code_shape:
  assumes "1000 \<le> ep_year env" "ep_year env < 10000" "ep_month env < 12"
    "0 \<le> ep_random env" "ep_random env < 1"
  shows "\<exists>y m n. reference_code env = ''RARE-'' @ y @ m @ ''-'' @ n \<and>
           length y = 4 \<and> length m = 2 \<and> length n = 4 \<and>
           list_all is_digit y \<and> list_all is_digit m \<and> list_all is_digit n"
proof -
  let ?y = "dec (ep_year env)"
  let ?m = "padStart 2 CHR ''0'' (dec (ep_month env + 1))"
  let ?n = "padStart 4 CHR ''0'' (dec (nat \<lfloor>ep_random env * 10000\<rfloor>))"
  have "length ?y = 4"
    using assms(1,2) by (rule dec_length_4)
  moreover have "length ?m = 2"
    using assms(3) by (intro padStart_length dec_length_le_2) simp
  moreover have "length ?n = 4"
    using assms(4,5) by (intro padStart_length dec_length_le_4 draw_below)
  moreover have "list_all is_digit ?y" "list_all is_digit ?m" "list_all is_digit ?n"
    by (simp_all add: dec_digits padStart_digits)
  ultimately show ?thesis
    unfolding reference_code_def by blast
qed

lemma handler_cases:
  "(ev_httpMethod e \<noteq> ''POST'' \<longrightarrow>
      handler P env e =
        \<lparr>statusCode = 405, answer = JObj [(''error'', JStr ''Method Not Allowed'')]\<rparr>) \<and>
   (ev_httpMethod e = ''POST'' \<and> ev_headers e = Some hs \<and>
      (\<not> includes_str (case map_of hs ''content-type'' of None \<Rightarrow> [] | Some c \<Rightarrow> c)
           ''application/json'' \<or> JSON_parse P (body_text e) \<noteq> None) \<longrightarrow>
      handler P env e =
        \<lparr>statusCode = 200,
         answer = JObj [(''success'', JBool True),
                        (''referenceNumber'', JStr (reference_code env))]\<rparr>) \<and>
   (ev_httpMethod e = ''POST'' \<and> ev_headers e = Some hs \<and>
      includes_str (case map_of hs ''content-type'' of None \<Rightarrow> [] | Some c \<Rightarrow> c)
        ''application/json'' \<and> JSON_parse P (body_text e) = None \<longrightarrow>
      handler P env e = bad_request (JSON_error P (body_text e))) \<and>
   (ev_httpMethod e = ''POST'' \<and> ev_headers e = None \<longrightarrow>
      statusCode (handler P env e) = 400)"
  by (auto simp: handler_def Let_def bad_request_def)

section \<open>Properties of the form/step controller\<close>

subsection \<open>The step index stays in range\<close>

lemma showStep_currentStep:
  "currentStep (showStep n p) = (if n < 1 \<or> n > totalSteps p then currentStep p else n)"
  by (simp add: showStep_def announceStep_def announceToScreenReader_def updateStepIndicators_def)

lemma showStep_totalSteps [simp]: "totalSteps (showStep n p) = totalSteps p"
  by (simp add: showStep_def announceStep_def announceToScreenReader_def updateStepIndicators_def)


lemma saveStepData_steps [simp]:
  "currentStep (snd (saveStepData p)) = currentStep p"
  "totalSteps (snd (saveStepData p)) = totalSteps p"
  by (auto simp: saveStepData_def scheduleAutoSave_def split: option.splits prod.splits)


lemma plain_messages [simp]:
  "currentStep (announceToScreenReader m p) = currentStep p"
  "totalSteps (announceToScreenReader m p) = totalSteps p"
  "currentStep (showFormError m p) = currentStep p"
  "totalSteps (showFormError m p) = totalSteps p"
  "currentStep (showFormSuccess m p) = currentStep p"
  "totalSteps (showFormSuccess m p) = totalSteps p"
  "currentStep (showStepError m p) = currentStep p"
  "totalSteps (showStepError m p) = totalSteps p"
  "currentStep (clearErrors p) = currentStep p"
  "totalSteps (clearErrors p) = totalSteps p"
  "currentStep (showLoadingState b p) = currentStep p"
  "totalSteps (showLoadingState b p) = totalSteps p"
  by (auto simp: announceToScreenReader_def showFormError_def showFormSuccess_def
      showStepError_def clearErrors_def showLoadingState_def split: option.splits)


lemma handleSubmitError_steps [simp]:
  "currentStep (handleSubmitError m p) = currentStep p"
  "totalSteps (handleSubmitError m p) = totalSteps p"
  by (auto simp: handleSubmitError_def Let_def split: option.splits prod.splits)



lemma step_in_range_messages [simp]:
  "step_in_range (showFormError m p) = step_in_range p"
  "step_in_range (showFormSuccess m p) = step_in_range p"
  "step_in_range (showStepError m p) = step_in_range p"
  by (simp_all add: step_in_range_def)














lemmas fh_eval =
  initFormHandler_def initial_state_def initMultiStepForm_def loadAutoSave_def loadDraft_def
  restoreFormData_def restoreField_def showStep_def announceStep_def announceToScreenReader_def
  updateStepIndicators_def showFormSuccess_def showFormError_def value_text_def
  goToStep_def handlePrev_def saveStepData_def currentStepElement_def saveField_def
  scheduleAutoSave_def step_in_range_def example_page_def stale_page_def text_field_def
  config_steps_def Let_def

subsection \<open>Jumping between steps\<close>

lemma rendered_completed:
  assumes "rendered p" "index < length (stepIndicators p)"
  shows "ind_completed (stepIndicators p ! index) = (int index + 1 < currentStep p)"
proof -
  have "stepIndicators p = stepIndicators (updateStepIndicators p)"
    using assms(1) by (simp add: rendered_def)
  then have "stepIndicators p ! index = stepIndicators (updateStepIndicators p) ! index"
    by simp
  also have "\<dots> = \<lparr>ind_active = (int index + 1 = currentStep p),
                     ind_completed = (int index + 1 < currentStep p)\<rparr>"
    using assms(2) by (simp add: updateStepIndicators_def)
  finally show ?thesis by simp
qed

lemma showStep_rendered: "1 \<le> n \<Longrightarrow> n \<le> totalSteps p \<Longrightarrow> rendered (showStep n p)"
  by (simp add: rendered_def showStep_def announceStep_def announceToScreenReader_def
      updateStepIndicators_def)

lemma indicatorClick_rendered:
  "rendered p \<Longrightarrow> currentStep p \<le> int index + 1 \<Longrightarrow> indicatorClick index p = (None, p)"
  by (auto simp: indicatorClick_def rendered_completed)

lemma goToStep_currentStep:
  "currentStep (snd (goToStep j p)) =
     (if 1 \<le> j \<and> j \<le> totalSteps p \<and> fst (saveStepData p) = None then j else currentStep p)"
  by (cases "saveStepData p")
     (auto simp: goToStep_def showStep_currentStep split: option.splits
        dest: arg_cong [where f = "\<lambda>x. currentStep (snd x)"] arg_cong [where f = "\<lambda>x. totalSteps (snd x)"])

lemma indicatorClick_changes:
  "currentStep (snd (indicatorClick index p)) \<noteq> currentStep p \<Longrightarrow>
     index < length (stepIndicators p) \<and> ind_completed (stepIndicators p ! index) \<and>
     currentStep (snd (indicatorClick index p)) = int index + 1"
  by (auto simp: indicatorClick_def goToStep_currentStep split: if_splits)

subsection \<open>The draft list\<close>

lemma stored_messages [simp]:
  "stored_drafts (showFormSuccess m p) = stored_drafts p"
  "stored_drafts (showFormError m p) = stored_drafts p"
  "hasStorage (showFormSuccess m p) = hasStorage p"
  by (simp_all add: stored_drafts_def showFormSuccess_def showFormError_def announceToScreenReader_def)




lemma saveDraft_hasStorage [simp]: "hasStorage (saveDraft a b c d p) = hasStorage p"
  by (simp add: saveDraft_def Let_def)




lemma drafts_frame [simp]:
  "draftsEntry (announceToScreenReader m p) = draftsEntry p"
  "draftsEntry (showFormError m p) = draftsEntry p"
  "draftsEntry (showFormSuccess m p) = draftsEntry p"
  "draftsEntry (showStepError m p) = draftsEntry p"
  "draftsEntry (clearErrors p) = draftsEntry p"
  "draftsEntry (showLoadingState b p) = draftsEntry p"
  "draftsEntry (showStep n p) = draftsEntry p"
  "draftsEntry (clearFormData p) = draftsEntry p"
  "draftsEntry (clearAutoSave p) = draftsEntry p"
  "draftsEntry (performAutoSave now newId p) = draftsEntry p"
  "draftsEntry (handleSubmitError m p) = draftsEntry p"
  by (auto simp: announceToScreenReader_def showFormError_def showFormSuccess_def
      showStepError_def clearErrors_def showLoadingState_def showStep_def announceStep_def
      updateStepIndicators_def clearFormData_def clearAutoSave_def performAutoSave_def
      handleSubmitError_def Let_def split: option.splits prod.splits)

lemma drafts_saveStepData [simp]: "draftsEntry (snd (saveStepData p)) = draftsEntry p"
  by (auto simp: saveStepData_def scheduleAutoSave_def split: option.splits prod.splits)

lemma drafts_restoreEntries [simp]: "draftsEntry (snd (restoreEntries fd p)) = draftsEntry p"
  by (induction fd p rule: restoreEntries.induct) auto

lemma drafts_handleSubmitSuccess [simp]:
  "draftsEntry (snd (handleSubmitSuccess env r p)) = draftsEntry p"
  by (auto simp: handleSubmitSuccess_def Let_def split: option.splits prod.splits sum.splits)

lemma drafts_handleSubmit [simp]: "draftsEntry (handleSubmit env p) = draftsEntry p"
proof -
  have *: "draftsEntry q = draftsEntry p0" if "handleSubmitSuccess env r p0 = (x, q)" for r p0 x q
    using that by (metis drafts_handleSubmitSuccess snd_conv)
  show ?thesis
    unfolding handleSubmit_def Let_def
    by (auto split: sum.splits prod.splits option.splits dest!: *)
qed

lemma drafts_navigation [simp]:
  "draftsEntry (snd (goToStep n p)) = draftsEntry p"
  "draftsEntry (snd (handlePrev p)) = draftsEntry p"
  "draftsEntry (snd (handleNext v env p)) = draftsEntry p"
  "draftsEntry (snd (indicatorClick i p)) = draftsEntry p"
proof -
  obtain r p1 where sv: "saveStepData p = (r, p1)" by (cases "saveStepData p")
  then have p1: "draftsEntry p1 = draftsEntry p"
    by (metis drafts_saveStepData snd_conv)
  show g: "draftsEntry (snd (goToStep n p)) = draftsEntry p" for n
    by (cases r) (simp_all add: goToStep_def sv p1)
  show "draftsEntry (snd (handlePrev p)) = draftsEntry p"
    by (cases r) (simp_all add: handlePrev_def sv p1)
  show "draftsEntry (snd (handleNext v env p)) = draftsEntry p"
    by (cases r) (simp_all add: handleNext_def sv p1)
  show "draftsEntry (snd (indicatorClick i p)) = draftsEntry p"
    by (simp add: indicatorClick_def g)
qed

lemma drafts_loads [simp]:
  "draftsEntry (loadAutoSave p) = draftsEntry p"
  "draftsEntry (loadDraft i p) = draftsEntry p"
proof -
  have *: "draftsEntry q = draftsEntry p0" if "restoreFormData p0 = (x, q)" for p0 x q
    using that by (metis drafts_restoreEntries restoreFormData_def snd_conv)
  show "draftsEntry (loadAutoSave p) = draftsEntry p"
    unfolding loadAutoSave_def Let_def
    by (auto split: option.splits prod.splits dest!: *)
  show "draftsEntry (loadDraft i p) = draftsEntry p"
    unfolding loadDraft_def Let_def
    by (auto split: option.splits prod.splits dest!: *)
qed




subsection \<open>Submission\<close>

lemma submitForm_cases:
  "(thrown_by_fetch (fetched env) = Some e \<and> err_name e \<noteq> ''TypeError'' \<and>
      \<not> includes_str (err_message e) ''fetch'' \<longrightarrow> submitForm env = Inl e) \<and>
   (thrown_by_fetch (fetched env) = Some e \<and>
      (err_name e = ''TypeError'' \<or> includes_str (err_message e) ''fetch'') \<longrightarrow>
        submitForm env = Inr (simulateSubmission env)) \<and>
   (fetched env = FetchBody r \<longrightarrow> submitForm env = Inr r) \<and>
   resp_success (simulateSubmission env) = (1 / 10 < draw_success env)"
  by (auto simp: submitForm_def thrown_by_fetch_def simulateSubmission_def)

lemma handleSubmit_failure:
  assumes "\<not> isSubmitting p" "validAll env" "submission_fails env"
  shows "handleSubmit env p =
           p\<lparr>errorContainer := (if errorContainer p = Absent then Absent
                                 else Shown (failure_message env)),
              stepError := None,
              submitBtn := map_option (\<lambda>b. (''Submit'', False)) (submitBtn p),
              announced := announced p @ [failure_message env],
              fetchCount := Suc (fetchCount p)\<rparr>"
  using assms
  by (cases "submitForm env"; cases "submitBtn p")
     (auto simp: handleSubmit_def submission_fails_def failure_message_def Let_def
        handleSubmitError_def showFormError_def announceToScreenReader_def clearErrors_def
        showLoadingState_def)

lemma handleSubmitSuccess_stored:
  assumes "resp_referenceNumber r = Some ref" "ref \<noteq> []"
    "fst (native_setItem (sessionStore p) submissionRefKey ref) = Inr ()"
  shows "\<exists>q. handleSubmitSuccess env r p = (None, q) \<and> formData q = [] \<and> currentStep q = 1 \<and>
           currentDraftId q = None \<and> (hasStorage p \<longrightarrow> autosaveEntry q = None) \<and>
           map_of (items (sessionStore q)) submissionRefKey = Some ref \<and>
           redirect q = Some successRedirect \<and> fetchCount q = fetchCount p \<and>
           isSubmitting q = isSubmitting p \<and> submitBtn q = submitBtn p"
  using assms
  by (auto simp: handleSubmitSuccess_def Let_def showFormSuccess_def announceToScreenReader_def
      clearFormData_def clearAutoSave_def native_setItem_def split: if_splits option.splits)

lemma handleSubmit_success:
  assumes "\<not> isSubmitting p" "validAll env" "submitForm env = Inr r" "resp_success r"
    "resp_referenceNumber r = Some ref" "ref \<noteq> []"
    "fst (native_setItem (sessionStore p) submissionRefKey ref) = Inr ()"
  shows "formData (handleSubmit env p) = [] \<and> currentStep (handleSubmit env p) = 1 \<and>
         currentDraftId (handleSubmit env p) = None \<and>
         (hasStorage p \<longrightarrow> autosaveEntry (handleSubmit env p) = None) \<and>
         map_of (items (sessionStore (handleSubmit env p))) submissionRefKey = Some ref \<and>
         redirect (handleSubmit env p) = Some successRedirect \<and>
         fetchCount (handleSubmit env p) = Suc (fetchCount p)"
proof -
  let ?p2 = "(clearErrors (showLoadingState True (p\<lparr>isSubmitting := True\<rparr>)))
               \<lparr>fetchCount := Suc (fetchCount p)\<rparr>"
  have s: "sessionStore ?p2 = sessionStore p" "hasStorage ?p2 = hasStorage p"
    "fetchCount ?p2 = Suc (fetchCount p)"
    by (auto simp: clearErrors_def showLoadingState_def split: option.splits)
  obtain q where q: "handleSubmitSuccess env r ?p2 = (None, q)" "formData q = []"
    "currentStep q = 1" "currentDraftId q = None" "hasStorage p \<longrightarrow> autosaveEntry q = None"
    "map_of (items (sessionStore q)) submissionRefKey = Some ref"
    "redirect q = Some successRedirect" "fetchCount q = Suc (fetchCount p)"
    using handleSubmitSuccess_stored [of r ref ?p2 env] assms(5-7) s by auto
  have fc: "fetchCount (clearErrors (showLoadingState True (p\<lparr>isSubmitting := True\<rparr>))) = fetchCount p"
    by (auto simp: clearErrors_def showLoadingState_def split: option.splits)
  have "handleSubmit env p = showLoadingState False (q\<lparr>isSubmitting := False\<rparr>)"
    using assms(1-4) q(1) by (simp add: handleSubmit_def Let_def fc)
  then show ?thesis
    using q by (auto simp: showLoadingState_def split: option.splits)
qed

section \<open>The claims about the storage adapter\<close>

text \<open>
  Claim C1 as amended. Let \<open>set(key, value, scope)\<close> write the text \<open>t\<close> that \<open>safeStringify\<close>
  makes of the value, and let the write reach the store \<open>get\<close> reads (the native store is
  in use and accepts it, or no native store is in use). Then \<open>set\<close> returns \<open>true\<close> and
  \<open>get(key, scope)\<close> returns what \<open>JSON.parse\<close> makes of \<open>t\<close>, or the raw text \<open>t\<close> when it is
  not JSON. So a value whose JSON text parses back to it is returned unchanged, a string
  that is not JSON text is returned unchanged, and a string that is JSON text is returned
  as the value it denotes. A second \<open>set\<close> with the same key and value changes neither the
  stores nor what \<open>get\<close> returns.
\<close>

theorem storage_round_trip:
  "key \<noteq> [] \<and> safeStringify P v = Some t \<and> write_lands s key t w \<longrightarrow>
     fst (Storage_set P key v s w) = True \<and>
     Storage_get P key s (snd (Storage_set P key v s w)) =
       (case JSON_parse P t of Some x \<Rightarrow> x | None \<Rightarrow> JStr t) \<and>
     (JSON_parse P t = Some v \<longrightarrow> Storage_get P key s (snd (Storage_set P key v s w)) = v) \<and>
     (v = JStr t \<and> JSON_parse P t = None \<longrightarrow>
        Storage_get P key s (snd (Storage_set P key v s w)) = v) \<and>
     Storage_set P key v s (snd (Storage_set P key v s w)) = Storage_set P key v s w \<and>
     Storage_get P key s (snd (Storage_set P key v s (snd (Storage_set P key v s w)))) =
       Storage_get P key s (snd (Storage_set P key v s w))"
proof (intro impI)
  assume a: "key \<noteq> [] \<and> safeStringify P v = Some t \<and> write_lands s key t w"
  then have g: "Storage_get P key s (snd (Storage_set P key v s w)) = safeParse P (Some t)"
    by (simp add: get_after_set)
  have tw: "Storage_set P key v s (snd (Storage_set P key v s w)) = Storage_set P key v s w"
    using a by (simp add: set_twice)
  have ok: "fst (Storage_set P key v s w) = True"
    using a by (simp add: set_lands)
  show "fst (Storage_set P key v s w) = True \<and>
     Storage_get P key s (snd (Storage_set P key v s w)) =
       (case JSON_parse P t of Some x \<Rightarrow> x | None \<Rightarrow> JStr t) \<and>
     (JSON_parse P t = Some v \<longrightarrow> Storage_get P key s (snd (Storage_set P key v s w)) = v) \<and>
     (v = JStr t \<and> JSON_parse P t = None \<longrightarrow>
        Storage_get P key s (snd (Storage_set P key v s w)) = v) \<and>
     Storage_set P key v s (snd (Storage_set P key v s w)) = Storage_set P key v s w \<and>
     Storage_get P key s (snd (Storage_set P key v s (snd (Storage_set P key v s w)))) =
       Storage_get P key s (snd (Storage_set P key v s w))"
    using g tw ok by (auto simp: safeParse_def)
qed

theorem storage_round_trip_witness:
  "safeStringify json_fragment (JArr [JNum 1, JNum 2]) = Some ''[1,2]'' \<and>
   write_lands False ''k'' ''[1,2]'' working_world \<and>
   JSON_parse json_fragment ''[1,2]'' = Some (JArr [JNum 1, JNum 2]) \<and>
   Storage_get json_fragment ''k'' False
     (snd (Storage_set json_fragment ''k'' (JArr [JNum 1, JNum 2]) False working_world)) =
     JArr [JNum 1, JNum 2] \<and>
   safeStringify json_fragment (JStr ''hello'') = Some ''hello'' \<and>
   write_lands True ''k'' ''hello'' switched_off_world \<and>
   JSON_parse json_fragment ''hello'' = None \<and>
   Storage_get json_fragment ''k'' True
     (snd (Storage_set json_fragment ''k'' (JStr ''hello'') True switched_off_world)) =
     JStr ''hello''"
proof -
  have a: "(''k'' :: string) \<noteq> []"
    "safeStringify json_fragment (JArr [JNum 1, JNum 2]) = Some ''[1,2]''"
    "write_lands False ''k'' ''[1,2]'' working_world"
    "JSON_parse json_fragment ''[1,2]'' = Some (JArr [JNum 1, JNum 2])"
    by code_simp+
  have b: "safeStringify json_fragment (JStr ''hello'') = Some ''hello''"
    "write_lands True ''k'' ''hello'' switched_off_world"
    "JSON_parse json_fragment ''hello'' = None"
    by code_simp+
  show ?thesis
    using
      storage_round_trip [where P = json_fragment and key = "''k''" and v = "JArr [JNum 1, JNum 2]"
        and t = "''[1,2]''" and s = False and w = working_world]
      storage_round_trip [where P = json_fragment and key = "''k''" and v = "JStr ''hello''"
        and t = "''hello''" and s = True and w = switched_off_world]
      a b
    by simp
qed

text \<open>
  Claim C1 as stated fails for a string that is JSON text: the string \<open>123\<close> is stored as
  it is and read back as the number 123. (It also fails when the native store is in use
  and refuses the write: \<open>set\<close> then writes to the memory object and returns \<open>true\<close>, while
  \<open>get\<close> goes on reading the native store and returns \<open>null\<close>.)
\<close>

theorem stored_string_read_as_json:
  "fst (Storage_set json_fragment ''k'' (JStr ''123'') False working_world) = True \<and>
   Storage_get json_fragment ''k'' False
     (snd (Storage_set json_fragment ''k'' (JStr ''123'') False working_world)) = JNum 123 \<and>
   fst (Storage_set json_fragment ''k'' (JArr [JNum 1, JNum 2]) False full_world) = True \<and>
   Storage_get json_fragment ''k'' False
     (snd (Storage_set json_fragment ''k'' (JArr [JNum 1, JNum 2]) False full_world)) = JNull"
  by code_simp

text \<open>
  Claim C2. When no native store is in use, or every call on it throws, each public
  operation returns the result of the same operation on the in-memory object and leaves
  the native store as it was: \<open>set\<close> writes the text there and returns \<open>true\<close> (\<open>false\<close> for an
  empty key or the value \<open>undefined\<close>), \<open>get\<close> reads it from there (\<open>null\<close> when absent), \<open>remove\<close>
  and \<open>clear\<close> delete there, \<open>has\<close> and \<open>keys\<close> look there, \<open>size\<close> adds up what is there. No
  exception of the native store leaves an operation: in the model each is a value that
  the case analysis standing for the \<open>catch\<close> block consumes. The operations keep the
  store in this condition, and \<open>get\<close> never returns \<open>undefined\<close> (as long as \<open>JSON.parse\<close>
  does not).
\<close>

theorem fallback_operations:
  "native_unusable s w \<longrightarrow>
     Storage_set P key v s w =
       (if key = [] then (False, w)
        else case safeStringify P v of
               None \<Rightarrow> (False, w)
             | Some t \<Rightarrow>
                 (True, putMemoryStorage s (memory_write key t (getMemoryStorage s w)) w)) \<and>
     Storage_get P key s w =
       (if key = [] then JNull else memory_get P (getMemoryStorage s w) key) \<and>
     Storage_remove key s w =
       (if key = [] then (False, w)
        else (True, putMemoryStorage s (delete_key key (getMemoryStorage s w)) w)) \<and>
     Storage_clear s w = (True, putMemoryStorage s [] w) \<and>
     Storage_has key s w = (key \<noteq> [] \<and> memory_has (getMemoryStorage s w) key) \<and>
     Storage_keys s w = map fst (getMemoryStorage s w) \<and>
     Storage_size P s w =
       sum_list (map (\<lambda>k.
           (case safeStringify P (if k = [] then JNull
                                  else memory_get P (getMemoryStorage s w) k) of
              None \<Rightarrow> 0
            | Some stringValue \<Rightarrow>
                if stringValue = [] then 0 else length k * 2 + length stringValue * 2))
         (map fst (getMemoryStorage s w))) \<and>
     native_unusable s (snd (Storage_set P key v s w)) \<and>
     native_unusable s (snd (Storage_remove key s w)) \<and>
     native_unusable s (snd (Storage_clear s w)) \<and>
     ((\<forall>t. JSON_parse P t \<noteq> Some JUndefined) \<longrightarrow> Storage_get P key s w \<noteq> JUndefined)"
proof (intro impI)
  assume u: "native_unusable s w"
  have g: "Storage_get P key s w = (if key = [] then JNull else memory_get P (getMemoryStorage s w) key)"
    using u by (simp add: unusable_get) (simp add: Storage_get_def)
  have st: "Storage_set P key v s w =
       (if key = [] then (False, w)
        else case safeStringify P v of
               None \<Rightarrow> (False, w)
             | Some t \<Rightarrow>
                 (True, putMemoryStorage s (memory_write key t (getMemoryStorage s w)) w))"
    using u by (simp add: unusable_set) (simp add: Storage_set_def)
  have rm: "Storage_remove key s w =
       (if key = [] then (False, w)
        else (True, putMemoryStorage s (delete_key key (getMemoryStorage s w)) w))"
    using u by (simp add: unusable_remove) (simp add: Storage_remove_def)
  show "Storage_set P key v s w =
       (if key = [] then (False, w)
        else case safeStringify P v of
               None \<Rightarrow> (False, w)
             | Some t \<Rightarrow>
                 (True, putMemoryStorage s (memory_write key t (getMemoryStorage s w)) w)) \<and>
     Storage_get P key s w =
       (if key = [] then JNull else memory_get P (getMemoryStorage s w) key) \<and>
     Storage_remove key s w =
       (if key = [] then (False, w)
        else (True, putMemoryStorage s (delete_key key (getMemoryStorage s w)) w)) \<and>
     Storage_clear s w = (True, putMemoryStorage s [] w) \<and>
     Storage_has key s w = (key \<noteq> [] \<and> memory_has (getMemoryStorage s w) key) \<and>
     Storage_keys s w = map fst (getMemoryStorage s w) \<and>
     Storage_size P s w =
       sum_list (map (\<lambda>k.
           (case safeStringify P (if k = [] then JNull
                                  else memory_get P (getMemoryStorage s w) k) of
              None \<Rightarrow> 0
            | Some stringValue \<Rightarrow>
                if stringValue = [] then 0 else length k * 2 + length stringValue * 2))
         (map fst (getMemoryStorage s w))) \<and>
     native_unusable s (snd (Storage_set P key v s w)) \<and>
     native_unusable s (snd (Storage_remove key s w)) \<and>
     native_unusable s (snd (Storage_clear s w)) \<and>
     ((\<forall>t. JSON_parse P t \<noteq> Some JUndefined) \<longrightarrow> Storage_get P key s w \<noteq> JUndefined)"
    by (intro conjI st g rm unusable_clear [OF u] unusable_has [OF u] unusable_keys [OF u]
        unusable_size [OF u] unusable_preserved [OF u] impI get_defined)
qed

theorem fallback_operations_witness:
  "native_unusable False throwing_world \<and> native_unusable True switched_off_world \<and>
   Storage_set json_fragment ''k'' (JArr [JNum 1, JNum 2]) False throwing_world =
     (True, throwing_world\<lparr>memoryLocal := [(''k'', ''[1,2]'')]\<rparr>) \<and>
   Storage_get json_fragment ''k'' False (throwing_world\<lparr>memoryLocal := [(''k'', ''[1,2]'')]\<rparr>) =
     JArr [JNum 1, JNum 2] \<and>
   Storage_keys False (throwing_world\<lparr>memoryLocal := [(''k'', ''[1,2]'')]\<rparr>) = [''k''] \<and>
   Storage_has ''k'' False (throwing_world\<lparr>memoryLocal := [(''k'', ''[1,2]'')]\<rparr>) \<and>
   Storage_size json_fragment False (throwing_world\<lparr>memoryLocal := [(''k'', ''[1,2]'')]\<rparr>) = 12 \<and>
   Storage_clear True switched_off_world = (True, switched_off_world) \<and>
   Storage_get json_fragment ''missing'' True switched_off_world = JNull"
proof -
  let ?w1 = "throwing_world\<lparr>memoryLocal := [(''k'', ''[1,2]'')]\<rparr>"
  have u: "native_unusable False throwing_world" "native_unusable True switched_off_world"
    "native_unusable False ?w1"
    by code_simp+
  have m: "(''k'' :: string) \<noteq> []" "(''missing'' :: string) \<noteq> []"
    "safeStringify json_fragment (JArr [JNum 1, JNum 2]) = Some ''[1,2]''"
    "putMemoryStorage False (memory_write ''k'' ''[1,2]'' (getMemoryStorage False throwing_world))
       throwing_world = ?w1"
    "memory_get json_fragment (getMemoryStorage False ?w1) ''k'' = JArr [JNum 1, JNum 2]"
    "map fst (getMemoryStorage False ?w1) = [''k'']"
    "memory_has (getMemoryStorage False ?w1) ''k''"
    "putMemoryStorage True [] switched_off_world = switched_off_world"
    "memory_get json_fragment (getMemoryStorage True switched_off_world) ''missing'' = JNull"
    by code_simp+
  have sz: "sum_list (map (\<lambda>k.
           (case safeStringify json_fragment
                   (if k = [] then JNull else memory_get json_fragment (getMemoryStorage False ?w1) k) of
              None \<Rightarrow> 0
            | Some stringValue \<Rightarrow>
                if stringValue = [] then 0 else length k * 2 + length stringValue * 2))
         (map fst (getMemoryStorage False ?w1))) = 12"
    by code_simp
  show ?thesis
    using
      fallback_operations [where s = False and w = throwing_world and P = json_fragment
        and key = "''k''" and v = "JArr [JNum 1, JNum 2]"]
      fallback_operations [where s = False and w = ?w1 and P = json_fragment and key = "''k''"]
      fallback_operations [where s = True and w = switched_off_world and P = json_fragment
        and key = "''missing''"]
      u m sz
    by simp
qed

section \<open>The claims about the form/step controller\<close>

text \<open>
  Claim C5 as amended. A click on a step indicator goes to that step only when the
  indicator is marked completed. On a page as \<open>showStep\<close> renders it the completed
  indicators are those before the current step, so a click on the indicator of the
  current or of a later step changes nothing, and whenever a click changes the current
  step, the new step is that of a completed indicator. \<open>goToStep\<close> itself, which the module
  exports, is gated by the range \<open>1..totalSteps\<close> only: inside the range it moves to the
  requested step (when collecting the current step's fields does not throw), outside it
  changes nothing.
\<close>

theorem indicator_jump_gated:
  "(rendered p \<and> currentStep p \<le> int index + 1 \<longrightarrow> indicatorClick index p = (None, p)) \<and>
   (currentStep (snd (indicatorClick index p)) \<noteq> currentStep p \<longrightarrow>
      index < length (stepIndicators p) \<and> ind_completed (stepIndicators p ! index) \<and>
      currentStep (snd (indicatorClick index p)) = int index + 1) \<and>
   (1 \<le> n \<and> n \<le> totalSteps p \<longrightarrow> rendered (showStep n p)) \<and>
   (1 \<le> j \<and> j \<le> totalSteps p \<and> fst (saveStepData p) = None \<longrightarrow>
      currentStep (snd (goToStep j p)) = j) \<and>
   (j < 1 \<or> totalSteps p < j \<longrightarrow> goToStep j p = (None, p))"
proof (intro conjI impI)
  show "indicatorClick index p = (None, p)" if "rendered p \<and> currentStep p \<le> int index + 1"
    using that by (simp add: indicatorClick_rendered)
  show "index < length (stepIndicators p)" "ind_completed (stepIndicators p ! index)"
    "currentStep (snd (indicatorClick index p)) = int index + 1"
    if "currentStep (snd (indicatorClick index p)) \<noteq> currentStep p"
    using indicatorClick_changes [OF that] by simp_all
  show "rendered (showStep n p)" if "1 \<le> n \<and> n \<le> totalSteps p"
    using that by (simp add: showStep_rendered)
  show "currentStep (snd (goToStep j p)) = j"
    if "1 \<le> j \<and> j \<le> totalSteps p \<and> fst (saveStepData p) = None"
    using that by (simp add: goToStep_currentStep)
  show "goToStep j p = (None, p)" if "j < 1 \<or> totalSteps p < j"
    using that by (auto simp: goToStep_def)
qed

theorem indicator_jump_gated_witness:
  "rendered (showStep 3 (initFormHandler example_page)) \<and>
   currentStep (showStep 3 (initFormHandler example_page)) \<le> int 3 + 1 \<and>
   indicatorClick 3 (showStep 3 (initFormHandler example_page)) =
     (None, showStep 3 (initFormHandler example_page)) \<and>
   currentStep (snd (indicatorClick 0 (showStep 3 (initFormHandler example_page)))) = 1 \<and>
   goToStep 5 (initFormHandler example_page) = (None, initFormHandler example_page)"
proof -
  let ?p0 = "initFormHandler example_page"
  have range: "(1::int) \<le> 3 \<and> 3 \<le> totalSteps ?p0"
    by (simp add: fh_eval)
  have r: "rendered (showStep 3 ?p0)"
    using indicator_jump_gated [where p = ?p0 and n = 3] range by blast
  have c: "currentStep (showStep 3 ?p0) \<le> int 3 + 1"
    using range by (simp add: showStep_currentStep)
  have "indicatorClick 3 (showStep 3 ?p0) = (None, showStep 3 ?p0)"
    using indicator_jump_gated [where p = "showStep 3 ?p0" and index = 3] r c by blast
  moreover have "currentStep (snd (indicatorClick 0 (showStep 3 ?p0))) = 1"
    by (simp add: fh_eval indicatorClick_def upt_rec)
  moreover have "goToStep 5 ?p0 = (None, ?p0)"
    using indicator_jump_gated [where p = ?p0 and j = 5] by (simp add: fh_eval)
  ultimately show ?thesis
    using r c by simp
qed

text \<open>
  Claim C5 as stated fails for \<open>goToStep\<close>: on the freshly initialised page, at step 1 with
  no step completed, \<open>goToStep(3)\<close> moves to step 3.
\<close>

theorem goToStep_skips_ahead:
  "currentStep (initFormHandler example_page) = 1 \<and>
   list_all (\<lambda>i. \<not> ind_completed i) (stepIndicators (initFormHandler example_page)) \<and>
   currentStep (snd (goToStep 3 (initFormHandler example_page))) = 3"
  by (simp add: fh_eval upt_rec)





section \<open>The claims about the validation module\<close>







text \<open>
  Claim C6 as amended. A submission attempt that fails -- \<open>submitForm\<close> throws, or its
  response has no success indication -- changes nothing but the messages: the error
  message is announced and shown in the error container, the step error is cleared, the
  submit button reads \<open>Submit\<close> again, and exactly one \<open>fetch\<close> was issued; the aggregate, the
  current step, the draft id, the stored entries and the pending redirect are as before.
  \<open>submitForm\<close> throws for a rejection or an unusable answer whose error is not a TypeError
  and does not mention \<open>fetch\<close> (the timeout's abort, a status that is not ok, a body that
  is not JSON), and it hands on the body of an answered request. For a TypeError, which is
  how \<open>fetch\<close> reports a network failure, or a message containing \<open>fetch\<close>, it substitutes
  the simulated submission, which succeeds when the random draw exceeds one tenth.
\<close>

theorem failed_submission_keeps_state:
  "(\<not> isSubmitting p \<and> validAll env \<and> submission_fails env \<longrightarrow>
      handleSubmit env p =
        p\<lparr>errorContainer := (if errorContainer p = Absent then Absent
                              else Shown (failure_message env)),
           stepError := None,
           submitBtn := map_option (\<lambda>b. (''Submit'', False)) (submitBtn p),
           announced := announced p @ [failure_message env],
           fetchCount := Suc (fetchCount p)\<rparr>) \<and>
   (thrown_by_fetch (fetched env) = Some e \<and> err_name e \<noteq> ''TypeError'' \<and>
      \<not> includes_str (err_message e) ''fetch'' \<longrightarrow> submitForm env = Inl e) \<and>
   (thrown_by_fetch (fetched env) = Some e \<and>
      (err_name e = ''TypeError'' \<or> includes_str (err_message e) ''fetch'') \<longrightarrow>
        submitForm env = Inr (simulateSubmission env)) \<and>
   (fetched env = FetchBody r \<longrightarrow> submitForm env = Inr r) \<and>
   resp_success (simulateSubmission env) = (1 / 10 < draw_success env)"
  using submitForm_cases [of env e r] handleSubmit_failure [of p env]
  by blast

theorem failed_submission_keeps_state_witness:
  "\<not> isSubmitting filled_page \<and> validAll timed_out \<and> submission_fails timed_out \<and>
   failure_message timed_out = ''The operation was aborted.'' \<and>
   formData (handleSubmit timed_out filled_page) = formData filled_page \<and>
   currentStep (handleSubmit timed_out filled_page) = 4 \<and>
   autosaveEntry (handleSubmit timed_out filled_page) = autosaveEntry filled_page \<and>
   errorContainer (handleSubmit timed_out filled_page) = Shown ''The operation was aborted.'' \<and>
   fetchCount (handleSubmit timed_out filled_page) = 1 \<and>
   redirect (handleSubmit timed_out filled_page) = None"
proof -
  have h: "\<not> isSubmitting filled_page" "validAll timed_out" "submission_fails timed_out"
    "failure_message timed_out = ''The operation was aborted.''"
    by code_simp+
  have p: "currentStep filled_page = 4" "errorContainer filled_page = Hidden"
    "fetchCount filled_page = 0" "redirect filled_page = None"
    by (simp_all add: filled_page_def example_page_def)
  show ?thesis
    using failed_submission_keeps_state [where p = filled_page and env = timed_out] h p
    by simp
qed

text \<open>
  Claim C6 as stated fails for a network error: \<open>fetch\<close> rejects with a TypeError,
  \<open>submitForm\<close> answers with the simulated submission, and with a draw of one half the
  success path runs -- the aggregate and the autosave entry are cleared, no error is
  shown, and the redirect is scheduled.
\<close>

theorem network_error_takes_success_path:
  "formData filled_page \<noteq> [] \<and> currentStep filled_page = 4 \<and>
   formData (handleSubmit network_failure filled_page) = [] \<and>
   currentStep (handleSubmit network_failure filled_page) = 1 \<and>
   autosaveEntry (handleSubmit network_failure filled_page) = None \<and>
   errorContainer (handleSubmit network_failure filled_page) = Hidden \<and>
   redirect (handleSubmit network_failure filled_page) = Some ''success.html''"
  by code_simp

text \<open>
  Claim C7, evaluated where the code departs from it. The endpoint answers with the
  success response of the scenario, and \<open>window.sessionStorage\<close> throws on every call (the
  user agent has storage switched off). \<open>handleSubmitSuccess\<close> has cleared the aggregate
  when the unguarded \<open>sessionStorage.setItem\<close> throws; the \<open>catch\<close> block of \<open>handleSubmit\<close>
  reports the exception as a submission error: the reference code is not stored and no
  redirect is scheduled. (With a session store that accepts the write the claim holds:
  lemma \<open>handleSubmit_success\<close>.)
\<close>

theorem success_lost_when_session_store_throws:
  "submitForm answered =
     Inr \<lparr>resp_success = True, resp_referenceNumber = Some ''RARE-202501-0042'',
          resp_message = None, resp_error = None\<rparr> \<and>
   formData (handleSubmit answered (filled_page\<lparr>sessionStore := disabled_native\<rparr>)) = [] \<and>
   redirect (handleSubmit answered (filled_page\<lparr>sessionStore := disabled_native\<rparr>)) = None \<and>
   errorContainer (handleSubmit answered (filled_page\<lparr>sessionStore := disabled_native\<rparr>)) =
     Shown ''The operation is insecure.'' \<and>
   map_of (items (sessionStore
       (handleSubmit answered (filled_page\<lparr>sessionStore := disabled_native\<rparr>))))
     submissionRefKey = None"
  by code_simp

section \<open>The claim about the submission endpoint\<close>

text \<open>
  Claim C9 as amended. A request whose method is not \<open>POST\<close> is answered with status 405
  and the error \<open>Method Not Allowed\<close>. A \<open>POST\<close> is answered with status 200, a success
  indication and the generated reference code, whatever its payload, unless reading the
  request throws: when the content type names \<open>application/json\<close> and the body is not
  JSON text, or when the event has no headers, the answer is status 400 with
  \<open>success: false\<close> and the message of the exception. With a four-digit year the
  reference code is \<open>RARE-\<close>, four digits of the year, two of the month, a hyphen and four
  digits drawn at random.
\<close>

theorem endpoint_answers:
  "(ev_httpMethod e \<noteq> ''POST'' \<longrightarrow>
      handler P env e =
        \<lparr>statusCode = 405, answer = JObj [(''error'', JStr ''Method Not Allowed'')]\<rparr>) \<and>
   (ev_httpMethod e = ''POST'' \<and> ev_headers e = Some hs \<and>
      (\<not> includes_str (case map_of hs ''content-type'' of None \<Rightarrow> [] | Some c \<Rightarrow> c)
           ''application/json'' \<or> JSON_parse P (body_text e) \<noteq> None) \<longrightarrow>
      handler P env e =
        \<lparr>statusCode = 200,
         answer = JObj [(''success'', JBool True),
                        (''referenceNumber'', JStr (reference_code env))]\<rparr>) \<and>
   (ev_httpMethod e = ''POST'' \<and> ev_headers e = Some hs \<and>
      includes_str (case map_of hs ''content-type'' of None \<Rightarrow> [] | Some c \<Rightarrow> c)
        ''application/json'' \<and> JSON_parse P (body_text e) = None \<longrightarrow>
      handler P env e = bad_request (JSON_error P (body_text e))) \<and>
   (ev_httpMethod e = ''POST'' \<and> ev_headers e = None \<longrightarrow>
      statusCode (handler P env e) = 400) \<and>
   (1000 \<le> ep_year env \<and> ep_year env < 10000 \<and> ep_month env < 12 \<and>
      0 \<le> ep_random env \<and> ep_random env < 1 \<longrightarrow>
      (\<exists>y m n. reference_code env = ''RARE-'' @ y @ m @ ''-'' @ n \<and>
         length y = 4 \<and> length m = 2 \<and> length n = 4 \<and>
         list_all is_digit y \<and> list_all is_digit m \<and> list_all is_digit n))"
  using handler_cases [of e P env hs] reference_code_shape [of env]
  by blast

theorem endpoint_answers_witness:
  "ev_httpMethod form_post = ''POST'' \<and>
   ev_headers form_post = Some [(''content-type'', ''multipart/form-data; boundary=x'')] \<and>
   \<not> includes_str ''multipart/form-data; boundary=x'' ''application/json'' \<and>
   handler json_fragment january form_post =
     \<lparr>statusCode = 200,
      answer = JObj [(''success'', JBool True), (''referenceNumber'', JStr ''RARE-202501-0042'')]\<rparr> \<and>
   handler json_fragment january (form_post\<lparr>ev_httpMethod := ''GET''\<rparr>) =
     \<lparr>statusCode = 405, answer = JObj [(''error'', JStr ''Method Not Allowed'')]\<rparr> \<and>
   reference_code january = ''RARE-202501-0042''"
proof -
  have h: "ev_httpMethod form_post = ''POST''"
    "ev_headers form_post = Some [(''content-type'', ''multipart/form-data; boundary=x'')]"
    "\<not> includes_str
         (case map_of [(''content-type'', ''multipart/form-data; boundary=x'')] ''content-type'' of
            None \<Rightarrow> [] | Some c \<Rightarrow> c) ''application/json''"
    "\<not> includes_str ''multipart/form-data; boundary=x'' ''application/json''"
    "ev_httpMethod (form_post\<lparr>ev_httpMethod := ''GET''\<rparr>) \<noteq> ''POST''"
    "reference_code january = ''RARE-202501-0042''"
    by code_simp+
  have ok: "handler json_fragment january form_post =
      \<lparr>statusCode = 200,
       answer = JObj [(''success'', JBool True),
                      (''referenceNumber'', JStr (reference_code january))]\<rparr>"
    using endpoint_answers [where e = form_post and P = json_fragment and env = january
        and hs = "[(''content-type'', ''multipart/form-data; boundary=x'')]"] h(1-3)
    by blast
  have no: "handler json_fragment january (form_post\<lparr>ev_httpMethod := ''GET''\<rparr>) =
      \<lparr>statusCode = 405, answer = JObj [(''error'', JStr ''Method Not Allowed'')]\<rparr>"
    using endpoint_answers [where e = "form_post\<lparr>ev_httpMethod := ''GET''\<rparr>"
        and P = json_fragment and env = january] h(5)
    by blast
  show ?thesis
    using h ok no by simp
qed

text \<open>
  Claim C9 as stated fails for a \<open>POST\<close> that announces JSON and carries a body that is
  not JSON: the answer is status 400 with \<open>success: false\<close>.
\<close>

theorem endpoint_rejects_broken_json:
  "ev_httpMethod broken_json_post = ''POST'' \<and>
   handler json_fragment january broken_json_post =
     \<lparr>statusCode = 400,
      answer = JObj [(''success'', JBool False),
                     (''error'', JStr ''Unexpected end of JSON input'')]\<rparr>"
  by code_simp

end
